theory Spec2Isabelle
  imports Complex_Main "HOL-Library.AList" "HOL-Library.List_Lexorder" "HOL-Library.Product_Lexorder"
begin

section \<open>Python strings and values\<close>

text \<open>
  A Python \<open>str\<close> is a sequence of Unicode code points and \<open>len\<close> counts code points,
  so a string is modelled as the list of its code points. The literals of the source that are
  written in Japanese are given code point by code point (hexadecimal), with an English gloss.
  Strings stand for well-formed Unicode text: lone surrogates, which a Python \<open>str\<close> can
  hold but UTF-8 cannot encode, are outside the model, and so are floating-point values.
\<close>

type_synonym pystr = "nat list"

definition ascii :: "string \<Rightarrow> pystr" where
  "ascii s = map of_char s"

definition startswith :: "pystr \<Rightarrow> pystr \<Rightarrow> bool" where
  "startswith s prefix = (take (length prefix) s = prefix)"

definition endswith :: "pystr \<Rightarrow> pystr \<Rightarrow> bool" where
  "endswith s suffix = (length suffix \<le> length s \<and> drop (length s - length suffix) s = suffix)"

text \<open>\<open>py_in sub s\<close> is Python's \<open>sub in s\<close> on two strings: \<open>sub\<close> occurs in \<open>s\<close>.\<close>

fun py_in :: "pystr \<Rightarrow> pystr \<Rightarrow> bool" where
  "py_in sub [] = (sub = [])"
| "py_in sub (c # cs) = (startswith (c # cs) sub \<or> py_in sub cs)"

text \<open>
  \<open>str.lower\<close>, on the ASCII letters. Python also lowers letters beyond ASCII; no code point
  beyond ASCII lowers to a letter of one of the valid extensions, so membership of a lowered
  suffix in \<open>VALID_EXTENSIONS\<close> is the same under both.
\<close>

definition lower_cp :: "nat \<Rightarrow> nat" where
  "lower_cp c = (if 0x41 \<le> c \<and> c \<le> 0x5A then c + 0x20 else c)"

definition lower :: "pystr \<Rightarrow> pystr" where
  "lower s = map lower_cp s"

section \<open>The launch gate (app_launcher.py)\<close>

subsection \<open>Results, errors and the operating system\<close>

record LaunchResult =
  success :: bool
  process_id :: "int option"
  error_code :: "int option"
  error_message :: "pystr option"
  execution_time :: real

text \<open>
  The exceptions the launcher tells apart, each with the text \<open>str(e)\<close>; \<open>OSError\<close> also
  carries \<open>e.errno\<close>. \<open>OtherException\<close> is any other subclass of \<open>Exception\<close>.
\<close>

datatype py_error =
    FileNotFoundError pystr
  | PermissionError pystr
  | OSError "int option" pystr
  | OtherException pystr

fun error_str :: "py_error \<Rightarrow> pystr" where
  "error_str (FileNotFoundError m) = m"
| "error_str (PermissionError m) = m"
| "error_str (OSError n m) = m"
| "error_str (OtherException m) = m"

record stat_result =
  st_is_dir :: bool
  st_size :: nat

text \<open>
  What the launcher asks of the standard library and the operating system: \<open>os.path.isabs\<close>,
  the \<open>stat\<close> call behind \<open>exists\<close>, \<open>is_dir\<close> and \<open>stat().st_size\<close>, \<open>Path(p).suffix\<close>,
  \<open>subprocess.Popen\<close> (the process id, or the exception raised), and the order in which the
  set \<open>INVALID_CHARS\<close> is iterated, which Python leaves open.
\<close>

record os_env =
  isabs :: "pystr \<Rightarrow> py_error + bool"
  stat :: "pystr \<Rightarrow> py_error + stat_result"
  suffix :: "pystr \<Rightarrow> pystr"
  Popen :: "pystr list \<Rightarrow> py_error + int"
  invalid_chars_order :: "nat list"

definition MAX_PATH_LENGTH :: nat where
  "MAX_PATH_LENGTH = 260"

definition VALID_EXTENSIONS :: "pystr set" where
  "VALID_EXTENSIONS = set (map ascii [''.exe'', ''.com'', ''.bat'', ''.cmd'', ''.msi'', ''.ps1''])"

definition INVALID_CHARS :: "nat set" where
  \<comment> \<open>the characters \<open>< > | " * ?\<close>\<close>
  "INVALID_CHARS = {0x3C, 0x3E, 0x7C, 0x22, 0x2A, 0x3F}"

subsection \<open>Messages\<close>

definition msg_path_too_long :: pystr where
  \<comment> \<open>the file path is too long\<close>
  "msg_path_too_long = [0x30D5, 0x30A1, 0x30A4, 0x30EB, 0x30D1, 0x30B9, 0x304C, 0x9577, 0x3059, 0x304E, 0x307E, 0x3059]"

definition msg_bad_path_form :: pystr where
  \<comment> \<open>security error: malformed path\<close>
  "msg_bad_path_form = [0x30BB, 0x30AD, 0x30E5, 0x30EA, 0x30C6, 0x30A3, 0x30A8, 0x30E9, 0x30FC, 0x3A, 0x20, 0x4E0D, 0x6B63, 0x306A, 0x30D1, 0x30B9, 0x5F62, 0x5F0F, 0x3067, 0x3059]"

definition msg_invalid_char :: pystr where
  \<comment> \<open>security error: contains an invalid character: (the character follows)\<close>
  "msg_invalid_char = [0x30BB, 0x30AD, 0x30E5, 0x30EA, 0x30C6, 0x30A3, 0x30A8, 0x30E9, 0x30FC, 0x3A, 0x20, 0x7121, 0x52B9, 0x306A, 0x6587, 0x5B57, 0x304C, 0x542B, 0x307E, 0x308C, 0x3066, 0x3044, 0x307E, 0x3059, 0x3A, 0x20]"

definition msg_not_absolute :: pystr where
  \<comment> \<open>security error: give an absolute path\<close>
  "msg_not_absolute = [0x30BB, 0x30AD, 0x30E5, 0x30EA, 0x30C6, 0x30A3, 0x30A8, 0x30E9, 0x30FC, 0x3A, 0x20, 0x7D76, 0x5BFE, 0x30D1, 0x30B9, 0x3092, 0x6307, 0x5B9A, 0x3057, 0x3066, 0x304F, 0x3060, 0x3055, 0x3044]"

definition msg_network_path :: pystr where
  \<comment> \<open>security error: network paths are not supported\<close>
  "msg_network_path = [0x30BB, 0x30AD, 0x30E5, 0x30EA, 0x30C6, 0x30A3, 0x30A8, 0x30E9, 0x30FC, 0x3A, 0x20, 0x30CD, 0x30C3, 0x30C8, 0x30EF, 0x30FC, 0x30AF, 0x30D1, 0x30B9, 0x306F, 0x30B5, 0x30DD, 0x30FC, 0x30C8, 0x3055, 0x308C, 0x3066, 0x3044, 0x307E, 0x305B, 0x3093]"

definition msg_security_exn :: pystr where
  \<comment> \<open>security validation error: (the exception text follows)\<close>
  "msg_security_exn = [0x30BB, 0x30AD, 0x30E5, 0x30EA, 0x30C6, 0x30A3, 0x691C, 0x8A3C, 0x30A8, 0x30E9, 0x30FC, 0x3A, 0x20]"

definition msg_file_missing :: pystr where
  \<comment> \<open>the given file was not found: (the path follows)\<close>
  "msg_file_missing = [0x6307, 0x5B9A, 0x3055, 0x308C, 0x305F, 0x30D5, 0x30A1, 0x30A4, 0x30EB, 0x304C, 0x898B, 0x3064, 0x304B, 0x308A, 0x307E, 0x305B, 0x3093, 0x3A, 0x20]"

definition msg_bad_file_type :: pystr where
  \<comment> \<open>invalid file format: (the path follows)\<close>
  "msg_bad_file_type = [0x7121, 0x52B9, 0x306A, 0x30D5, 0x30A1, 0x30A4, 0x30EB, 0x5F62, 0x5F0F, 0x3067, 0x3059, 0x3A, 0x20]"

definition msg_exn_not_found :: pystr where
  \<comment> \<open>file not found: (the exception text follows)\<close>
  "msg_exn_not_found = [0x30D5, 0x30A1, 0x30A4, 0x30EB, 0x304C, 0x898B, 0x3064, 0x304B, 0x308A, 0x307E, 0x305B, 0x3093, 0x3A, 0x20]"

definition msg_exn_permission :: pystr where
  \<comment> \<open>insufficient privileges: (the exception text follows)\<close>
  "msg_exn_permission = [0x6A29, 0x9650, 0x304C, 0x4E0D, 0x8DB3, 0x3057, 0x3066, 0x3044, 0x307E, 0x3059, 0x3A, 0x20]"

definition msg_exn_oserror :: pystr where
  \<comment> \<open>system error: (the exception text follows)\<close>
  "msg_exn_oserror = [0x30B7, 0x30B9, 0x30C6, 0x30E0, 0x30A8, 0x30E9, 0x30FC, 0x3A, 0x20]"

definition msg_exn_other :: pystr where
  \<comment> \<open>unexpected error: (the exception text follows)\<close>
  "msg_exn_other = [0x4E88, 0x671F, 0x3057, 0x306A, 0x3044, 0x30A8, 0x30E9, 0x30FC, 0x3A, 0x20]"

subsection \<open>Path checks\<close>

definition path_exists :: "os_env \<Rightarrow> pystr \<Rightarrow> bool" where
  \<comment> \<open>\<open>os.path.exists\<close> and \<open>Path.exists\<close>: false when the \<open>stat\<close> call fails\<close>
  "path_exists env p = (case stat env p of Inl e \<Rightarrow> False | Inr s \<Rightarrow> True)"

definition path_is_dir :: "os_env \<Rightarrow> pystr \<Rightarrow> bool" where
  "path_is_dir env p = (case stat env p of Inl e \<Rightarrow> False | Inr s \<Rightarrow> st_is_dir s)"

definition is_valid_executable :: "os_env \<Rightarrow> pystr \<Rightarrow> bool" where
  "is_valid_executable env file_path =
     (if \<not> path_exists env file_path then False
      else if path_is_dir env file_path then False
      else if lower (suffix env file_path) \<notin> VALID_EXTENSIONS then False
      else (case stat env file_path of
              Inl e \<Rightarrow> False
            | Inr s \<Rightarrow> if st_size s = 0 then False else True))"

definition validate_security :: "os_env \<Rightarrow> pystr \<Rightarrow> bool \<times> pystr option" where
  "validate_security env file_path =
     (if length file_path > MAX_PATH_LENGTH then (False, Some msg_path_too_long)
      else if py_in (ascii ''..'') file_path then (False, Some msg_bad_path_form)
      else (case find (\<lambda>c. c \<in> set file_path) (invalid_chars_order env) of
              Some c \<Rightarrow> (False, Some (msg_invalid_char @ [c]))
            | None \<Rightarrow>
               (case isabs env file_path of
                  Inl e \<Rightarrow> (False, Some (msg_security_exn @ error_str e))
                | Inr absolute \<Rightarrow>
                    if \<not> absolute then (False, Some msg_not_absolute)
                    else if startswith file_path [0x5C, 0x5C]
                      then (False, Some msg_network_path)
                    else (True, None))))"

subsection \<open>Launching\<close>

text \<open>
  The state is the list of command lines handed to \<open>Popen\<close> so far; \<open>elapsed\<close> is the
  wall-clock reading \<open>(time.time() - start_time) * 1000\<close> at the return.
\<close>

definition failure :: "pystr \<Rightarrow> real \<Rightarrow> LaunchResult" where
  "failure msg elapsed =
     \<lparr>success = False, process_id = None, error_code = None,
      error_message = Some msg, execution_time = elapsed\<rparr>"

definition launch_application ::
  "os_env \<Rightarrow> pystr \<Rightarrow> pystr list option \<Rightarrow> real \<Rightarrow> pystr list list
     \<Rightarrow> LaunchResult \<times> pystr list list" where
  "launch_application env app_path args elapsed spawned =
     (let security_check = validate_security env app_path in
      if \<not> fst security_check then
        (\<lparr>success = False, process_id = None, error_code = None,
          error_message = snd security_check, execution_time = elapsed\<rparr>, spawned)
      else if \<not> path_exists env app_path then
        (failure (msg_file_missing @ app_path) elapsed, spawned)
      else if \<not> is_valid_executable env app_path then
        (failure (msg_bad_file_type @ app_path) elapsed, spawned)
      else
        (let cmd = app_path # (case args of None \<Rightarrow> [] | Some extra \<Rightarrow> extra) in
         case Popen env cmd of
           Inr pid \<Rightarrow>
             (\<lparr>success = True, process_id = Some pid, error_code = None,
               error_message = None, execution_time = elapsed\<rparr>, spawned @ [cmd])
         | Inl (FileNotFoundError m) \<Rightarrow>
             (failure (msg_exn_not_found @ m) elapsed, spawned @ [cmd])
         | Inl (PermissionError m) \<Rightarrow>
             (failure (msg_exn_permission @ m) elapsed, spawned @ [cmd])
         | Inl (OSError errno m) \<Rightarrow>
             (\<lparr>success = False, process_id = None, error_code = errno,
               error_message = Some (msg_exn_oserror @ m), execution_time = elapsed\<rparr>,
              spawned @ [cmd])
         | Inl (OtherException m) \<Rightarrow>
             (failure (msg_exn_other @ m) elapsed, spawned @ [cmd])))"

text \<open>
  \<open>launch_with_admin\<close> builds the \<open>runas\<close> command line and returns without starting it.
\<close>

definition quoted :: "pystr \<Rightarrow> pystr" where
  "quoted s = [0x22] @ s @ [0x22]"

fun join :: "pystr \<Rightarrow> pystr list \<Rightarrow> pystr" where
  "join sep [] = []"
| "join sep [s] = s"
| "join sep (s # t # ss) = s @ sep @ join sep (t # ss)"

definition admin_command :: "pystr \<Rightarrow> pystr list option \<Rightarrow> pystr list" where
  "admin_command app_path args =
     [ascii ''runas'', ascii ''/user:Administrator'',
      quoted app_path @
        (case args of
           None \<Rightarrow> []
         | Some extra \<Rightarrow> if extra = [] then [] else [0x20] @ join [0x20] (map quoted extra))]"

definition launch_with_admin ::
  "os_env \<Rightarrow> pystr \<Rightarrow> pystr list option \<Rightarrow> real \<Rightarrow> pystr list list
     \<Rightarrow> LaunchResult \<times> pystr list list" where
  "launch_with_admin env app_path args elapsed spawned =
     (let cmd = admin_command app_path args in
      (\<lparr>success = True, process_id = None, error_code = None,
        error_message = None, execution_time = elapsed\<rparr>, spawned))"

section \<open>The configuration store (config_manager.py)\<close>

subsection \<open>Values\<close>

text \<open>
  The Python values of a configuration: those JSON represents, and tuples, which JSON has
  not. A dictionary keeps its insertion order, as Python's does; its keys are strings
  (\<open>Dict[str, Any]\<close>).
\<close>

datatype pyval =
    PNone
  | PBool bool
  | PInt int
  | PStr pystr
  | PList "pyval list"
  | PTuple "pyval list"
  | PDict "(pystr \<times> pyval) list"

text \<open>
  JSON values, with what \<open>json.dump\<close> writes for a Python value and what \<open>json.load\<close>
  returns for a JSON value: a tuple is written as an array, and an array is read as a list.
  An object lists its members as the parser leaves them, each name once.
\<close>

datatype json =
    JNull
  | JBool bool
  | JInt int
  | JStr pystr
  | JArray "json list"
  | JObject "(pystr \<times> json) list"

fun to_json :: "pyval \<Rightarrow> json" where
  "to_json PNone = JNull"
| "to_json (PBool b) = JBool b"
| "to_json (PInt n) = JInt n"
| "to_json (PStr s) = JStr s"
| "to_json (PList xs) = JArray (map to_json xs)"
| "to_json (PTuple xs) = JArray (map to_json xs)"
| "to_json (PDict d) = JObject (map (map_prod id to_json) d)"

fun from_json :: "json \<Rightarrow> pyval" where
  "from_json JNull = PNone"
| "from_json (JBool b) = PBool b"
| "from_json (JInt n) = PInt n"
| "from_json (JStr s) = PStr s"
| "from_json (JArray xs) = PList (map from_json xs)"
| "from_json (JObject d) = PDict (map (map_prod id from_json) d)"

text \<open>
  The exceptions of the store: \<open>IOError\<close> is \<open>OSError\<close> (the two names are one class in
  Python 3) with its subclasses. \<open>JSONDecodeError\<close> and \<open>UnicodeDecodeError\<close> are both
  subclasses of \<open>ValueError\<close>, and neither is a subclass of the other.
\<close>

datatype py_exn = IOError | JSONDecodeError | UnicodeDecodeError | TypeError | AttributeError

datatype py_type = T_str | T_dict | T_bool | T_int

text \<open>\<open>bool\<close> is a subclass of \<open>int\<close>: \<open>isinstance(True, int)\<close> holds.\<close>

fun isinstance :: "pyval \<Rightarrow> py_type \<Rightarrow> bool" where
  "isinstance v T_str = (case v of PStr s \<Rightarrow> True | _ \<Rightarrow> False)"
| "isinstance v T_dict = (case v of PDict d \<Rightarrow> True | _ \<Rightarrow> False)"
| "isinstance v T_bool = (case v of PBool b \<Rightarrow> True | _ \<Rightarrow> False)"
| "isinstance v T_int = (case v of PInt n \<Rightarrow> True | PBool b \<Rightarrow> True | _ \<Rightarrow> False)"

fun type_name :: "py_type \<Rightarrow> pystr" where
  "type_name T_str = ascii ''str''"
| "type_name T_dict = ascii ''dict''"
| "type_name T_bool = ascii ''bool''"
| "type_name T_int = ascii ''int''"

fun int_value :: "pyval \<Rightarrow> int" where
  "int_value (PInt n) = n"
| "int_value (PBool b) = (if b then 1 else 0)"
| "int_value v = 0"

text \<open>\<open>key in config\<close> and \<open>config.get(key, default)\<close>, for a string \<open>key\<close> and any value.\<close>

fun contains :: "pyval \<Rightarrow> pystr \<Rightarrow> py_exn + bool" where
  "contains (PDict d) key = Inr (map_of d key \<noteq> None)"
| "contains (PList xs) key = Inr (PStr key \<in> set xs)"
| "contains (PTuple xs) key = Inr (PStr key \<in> set xs)"
| "contains (PStr s) key = Inr (py_in key s)"
| "contains PNone key = Inl TypeError"
| "contains (PBool b) key = Inl TypeError"
| "contains (PInt n) key = Inl TypeError"

fun get :: "pyval \<Rightarrow> pystr \<Rightarrow> pyval \<Rightarrow> py_exn + pyval" where
  "get (PDict d) key dflt = Inr (case map_of d key of None \<Rightarrow> dflt | Some v \<Rightarrow> v)"
| "get v key dflt = Inl AttributeError"

fun items :: "pyval \<Rightarrow> py_exn + (pystr \<times> pyval) list" where
  "items (PDict d) = Inr d"
| "items v = Inl AttributeError"

subsection \<open>Messages of the validators\<close>

definition msg_required_pre :: pystr where
  \<comment> \<open>required key ' (the key follows)\<close>
  "msg_required_pre = [0x5FC5, 0x9808, 0x30AD, 0x30FC, 0x20, 0x27]"

definition msg_required_post :: pystr where
  \<comment> \<open>' does not exist\<close>
  "msg_required_post = [0x27, 0x20, 0x304C, 0x5B58, 0x5728, 0x3057, 0x307E, 0x305B, 0x3093]"

definition msg_app_path_str :: pystr where
  \<comment> \<open>app_path must be a string\<close>
  "msg_app_path_str = [0x61, 0x70, 0x70, 0x5F, 0x70, 0x61, 0x74, 0x68, 0x20, 0x306F, 0x6587, 0x5B57, 0x5217, 0x3067, 0x3042, 0x308B, 0x5FC5, 0x8981, 0x304C, 0x3042, 0x308A, 0x307E, 0x3059]"

definition msg_icon_position_dict :: pystr where
  \<comment> \<open>icon_position must be a dictionary\<close>
  "msg_icon_position_dict = [0x69, 0x63, 0x6F, 0x6E, 0x5F, 0x70, 0x6F, 0x73, 0x69, 0x74, 0x69, 0x6F, 0x6E, 0x20, 0x306F, 0x8F9E, 0x66F8, 0x3067, 0x3042, 0x308B, 0x5FC5, 0x8981, 0x304C, 0x3042, 0x308A, 0x307E, 0x3059]"

definition msg_coord_pre :: pystr where
  \<comment> \<open>icon_position. (the coordinate follows)\<close>
  "msg_coord_pre = [0x69, 0x63, 0x6F, 0x6E, 0x5F, 0x70, 0x6F, 0x73, 0x69, 0x74, 0x69, 0x6F, 0x6E, 0x2E]"

definition msg_coord_missing :: pystr where
  \<comment> \<open>(coordinate) does not exist\<close>
  "msg_coord_missing = [0x20, 0x304C, 0x5B58, 0x5728, 0x3057, 0x307E, 0x305B, 0x3093]"

definition msg_coord_not_int :: pystr where
  \<comment> \<open>(coordinate) must be an integer\<close>
  "msg_coord_not_int = [0x20, 0x306F, 0x6574, 0x6570, 0x3067, 0x3042, 0x308B, 0x5FC5, 0x8981, 0x304C, 0x3042, 0x308A, 0x307E, 0x3059]"

definition msg_coord_range :: pystr where
  \<comment> \<open>(coordinate) must lie in the range -32768 to 32767\<close>
  "msg_coord_range = [0x20, 0x306F, 0x20, 0x2D, 0x33, 0x32, 0x37, 0x36, 0x38, 0x20, 0x304B, 0x3089, 0x20, 0x33, 0x32, 0x37, 0x36, 0x37, 0x20, 0x306E, 0x7BC4, 0x56F2, 0x5185, 0x3067, 0x3042, 0x308B, 0x5FC5, 0x8981, 0x304C, 0x3042, 0x308A, 0x307E, 0x3059]"

definition msg_icon_fixed_bool :: pystr where
  \<comment> \<open>icon_fixed must be a boolean\<close>
  "msg_icon_fixed_bool = [0x69, 0x63, 0x6F, 0x6E, 0x5F, 0x66, 0x69, 0x78, 0x65, 0x64, 0x20, 0x306F, 0x30D6, 0x30FC, 0x30EB, 0x5024, 0x3067, 0x3042, 0x308B, 0x5FC5, 0x8981, 0x304C, 0x3042, 0x308A, 0x307E, 0x3059]"

definition msg_auto_start_bool :: pystr where
  \<comment> \<open>auto_start must be a boolean\<close>
  "msg_auto_start_bool = [0x61, 0x75, 0x74, 0x6F, 0x5F, 0x73, 0x74, 0x61, 0x72, 0x74, 0x20, 0x306F, 0x30D6, 0x30FC, 0x30EB, 0x5024, 0x3067, 0x3042, 0x308B, 0x5FC5, 0x8981, 0x304C, 0x3042, 0x308A, 0x307E, 0x3059]"

definition msg_icon_size_int :: pystr where
  \<comment> \<open>icon_size must be an integer\<close>
  "msg_icon_size_int = [0x69, 0x63, 0x6F, 0x6E, 0x5F, 0x73, 0x69, 0x7A, 0x65, 0x20, 0x306F, 0x6574, 0x6570, 0x3067, 0x3042, 0x308B, 0x5FC5, 0x8981, 0x304C, 0x3042, 0x308A, 0x307E, 0x3059]"

definition msg_icon_size_range :: pystr where
  \<comment> \<open>icon_size must lie in the range 16 to 128\<close>
  "msg_icon_size_range = [0x69, 0x63, 0x6F, 0x6E, 0x5F, 0x73, 0x69, 0x7A, 0x65, 0x20, 0x306F, 0x20, 0x31, 0x36, 0x20, 0x304B, 0x3089, 0x20, 0x31, 0x32, 0x38, 0x20, 0x306E, 0x7BC4, 0x56F2, 0x5185, 0x3067, 0x3042, 0x308B, 0x5FC5, 0x8981, 0x304C, 0x3042, 0x308A, 0x307E, 0x3059]"

definition msg_version_str :: pystr where
  \<comment> \<open>version must be a string\<close>
  "msg_version_str = [0x76, 0x65, 0x72, 0x73, 0x69, 0x6F, 0x6E, 0x20, 0x306F, 0x6587, 0x5B57, 0x5217, 0x3067, 0x3042, 0x308B, 0x5FC5, 0x8981, 0x304C, 0x3042, 0x308A, 0x307E, 0x3059]"

definition msg_not_dict :: pystr where
  \<comment> \<open>the configuration must be a dictionary\<close>
  "msg_not_dict = [0x8A2D, 0x5B9A, 0x306F, 0x8F9E, 0x66F8, 0x5F62, 0x5F0F, 0x3067, 0x3042, 0x308B, 0x5FC5, 0x8981, 0x304C, 0x3042, 0x308A, 0x307E, 0x3059]"

definition msg_type_mid :: pystr where
  \<comment> \<open>(key) is (the type name follows)\<close>
  "msg_type_mid = [0x20, 0x306F, 0x20]"

definition msg_type_post :: pystr where
  \<comment> \<open>(type name) type is required\<close>
  "msg_type_post = [0x20, 0x578B, 0x3067, 0x3042, 0x308B, 0x5FC5, 0x8981, 0x304C, 0x3042, 0x308A, 0x307E, 0x3059]"

subsection \<open>Validation\<close>

definition get_default_config :: pyval where
  "get_default_config =
     PDict [(ascii ''app_path'', PStr []),
            (ascii ''icon_position'', PDict [(ascii ''x'', PInt 100), (ascii ''y'', PInt 100)]),
            (ascii ''icon_fixed'', PBool False),
            (ascii ''auto_start'', PBool False),
            (ascii ''icon_size'', PInt 32),
            (ascii ''version'', PStr (ascii ''1.0.0''))]"

definition required_keys :: "pystr list" where
  "required_keys = map ascii [''app_path'', ''icon_position'', ''icon_fixed'', ''auto_start'',
     ''icon_size'', ''version'']"

text \<open>The first loop of \<open>validate_config\<close>: one error for each required key not in \<open>config\<close>.\<close>

fun missing_keys :: "pyval \<Rightarrow> pystr list \<Rightarrow> py_exn + pystr list" where
  "missing_keys config [] = Inr []"
| "missing_keys config (key # keys) =
     (case contains config key of
        Inl e \<Rightarrow> Inl e
      | Inr present \<Rightarrow>
          (case missing_keys config keys of
             Inl e \<Rightarrow> Inl e
           | Inr errors \<Rightarrow>
               Inr ((if present then [] else [msg_required_pre @ key @ msg_required_post])
                    @ errors)))"

definition check_coord :: "(pystr \<times> pyval) list \<Rightarrow> pystr \<Rightarrow> pystr list" where
  "check_coord icon_position coord =
     (case map_of icon_position coord of
        None \<Rightarrow> [msg_coord_pre @ coord @ msg_coord_missing]
      | Some v \<Rightarrow>
          if \<not> isinstance v T_int then [msg_coord_pre @ coord @ msg_coord_not_int]
          else if \<not> (- 32768 \<le> int_value v \<and> int_value v \<le> 32767)
            then [msg_coord_pre @ coord @ msg_coord_range]
          else [])"

definition validate_config :: "pyval \<Rightarrow> py_exn + (bool \<times> pystr list)" where
  "validate_config config =
     (case missing_keys config required_keys of
        Inl e \<Rightarrow> Inl e
      | Inr missing \<Rightarrow>
          if missing \<noteq> [] then Inr (False, missing)
          else
           (case get config (ascii ''app_path'') (PStr []) of Inl e \<Rightarrow> Inl e | Inr app_path \<Rightarrow>
           (case get config (ascii ''icon_position'') (PDict []) of Inl e \<Rightarrow> Inl e | Inr icon_position \<Rightarrow>
           (case get config (ascii ''icon_fixed'') PNone of Inl e \<Rightarrow> Inl e | Inr icon_fixed \<Rightarrow>
           (case get config (ascii ''auto_start'') PNone of Inl e \<Rightarrow> Inl e | Inr auto_start \<Rightarrow>
           (case get config (ascii ''icon_size'') PNone of Inl e \<Rightarrow> Inl e | Inr icon_size \<Rightarrow>
           (case get config (ascii ''version'') PNone of Inl e \<Rightarrow> Inl e | Inr version \<Rightarrow>
             (let errors =
                (if \<not> isinstance app_path T_str then [msg_app_path_str] else [])
                @ (case icon_position of
                     PDict d \<Rightarrow> check_coord d (ascii ''x'') @ check_coord d (ascii ''y'')
                   | _ \<Rightarrow> [msg_icon_position_dict])
                @ (if \<not> isinstance icon_fixed T_bool then [msg_icon_fixed_bool] else [])
                @ (if \<not> isinstance auto_start T_bool then [msg_auto_start_bool] else [])
                @ (if \<not> isinstance icon_size T_int then [msg_icon_size_int]
                   else if \<not> (16 \<le> int_value icon_size \<and> int_value icon_size \<le> 128)
                     then [msg_icon_size_range]
                   else [])
                @ (if \<not> isinstance version T_str then [msg_version_str] else [])
              in Inr (errors = [], errors)))))))))"

definition type_checks :: "(pystr \<times> py_type) list" where
  "type_checks =
     [(ascii ''app_path'', T_str), (ascii ''icon_position'', T_dict),
      (ascii ''icon_fixed'', T_bool), (ascii ''auto_start'', T_bool),
      (ascii ''icon_size'', T_int), (ascii ''version'', T_str)]"

definition type_error :: "(pystr \<times> pyval) list \<Rightarrow> pystr \<times> py_type \<Rightarrow> pystr list" where
  "type_error d check =
     (case map_of d (fst check) of
        None \<Rightarrow> []
      | Some v \<Rightarrow>
          if \<not> isinstance v (snd check)
            then [fst check @ msg_type_mid @ type_name (snd check) @ msg_type_post]
          else [])"

definition basic_validation :: "pyval \<Rightarrow> bool \<times> pystr list" where
  "basic_validation config =
     (case config of
        PDict d \<Rightarrow> (let errors = concat (map (type_error d) type_checks) in (errors = [], errors))
      | _ \<Rightarrow> (False, [msg_not_dict]))"

subsection \<open>Files, clock and I/O failures\<close>

text \<open>
  A file holds the text of a JSON value, or a text that \<open>json.load\<close> rejects with
  \<open>JSONDecodeError\<close> (the empty text is one), or bytes that are not UTF-8, at which reading
  the file opened with \<open>encoding='utf-8'\<close> raises \<open>UnicodeDecodeError\<close>. A file has the
  modification time the file system gave it.
\<close>

datatype file_content = JsonText json | Malformed pystr | NotUtf8 "nat list"

record fs_file =
  content :: file_content
  mtime :: nat

text \<open>
  The store touches the live configuration file, the files of its \<open>backups\<close> directory (by
  file name), and whatever other path \<open>restore_from_backup\<close> is given.
\<close>

datatype path = ConfigFile | BackupFile pystr | OtherFile pystr

record fs =
  live :: "fs_file option"
  backup_dir :: "(pystr \<times> fs_file) list option"
  others :: "(pystr \<times> fs_file) list"

text \<open>
  Each call reads the clock once: \<open>stamp\<close> is \<open>datetime.now().strftime("%Y%m%d_%H%M%S")\<close>,
  \<open>isoformat\<close> is \<open>datetime.now().isoformat()\<close>, \<open>fs_time\<close> is the modification time a file
  written now gets.
\<close>

record clock =
  stamp :: pystr
  isoformat :: pystr
  fs_time :: nat

text \<open>
  The operating system may fail an operation with \<open>OSError\<close> (permissions, a full disk, a
  directory in place of a file): \<open>flt op\<close> says that it fails \<open>op\<close>. A copy can fail in two
  places: \<open>OpCopy\<close> when the files are opened, before the destination is touched, and
  \<open>OpCopyData\<close> while the data is written, after the destination was truncated.
\<close>

datatype fs_op =
    OpRead path
  | OpWrite path
  | OpCopy path path
  | OpCopyData path path
  | OpListdir
  | OpGetmtime path
  | OpRemove path
  | OpMakedirs

type_synonym faults = "fs_op \<Rightarrow> bool"

definition no_faults :: faults where
  "no_faults op = False"

fun lookup_file :: "fs \<Rightarrow> path \<Rightarrow> fs_file option" where
  "lookup_file st ConfigFile = live st"
| "lookup_file st (BackupFile name) =
     (case backup_dir st of None \<Rightarrow> None | Some d \<Rightarrow> map_of d name)"
| "lookup_file st (OtherFile name) = map_of (others st) name"

definition os_path_exists :: "fs \<Rightarrow> path \<Rightarrow> bool" where
  "os_path_exists st p = (lookup_file st p \<noteq> None)"

fun store_file :: "fs \<Rightarrow> path \<Rightarrow> fs_file \<Rightarrow> fs option" where
  "store_file st ConfigFile f = Some (st\<lparr>live := Some f\<rparr>)"
| "store_file st (BackupFile name) f =
     (case backup_dir st of
        None \<Rightarrow> None
      | Some d \<Rightarrow> Some (st\<lparr>backup_dir := Some (AList.update name f d)\<rparr>))"
| "store_file st (OtherFile name) f = Some (st\<lparr>others := AList.update name f (others st)\<rparr>)"

definition json_load_file :: "faults \<Rightarrow> fs \<Rightarrow> path \<Rightarrow> py_exn + pyval" where
  \<comment> \<open>\<open>with open(p, 'r', encoding='utf-8') as f: json.load(f)\<close>\<close>
  "json_load_file flt st p =
     (if flt (OpRead p) then Inl IOError
      else (case lookup_file st p of
              None \<Rightarrow> Inl IOError
            | Some f \<Rightarrow>
                (case content f of
                   JsonText j \<Rightarrow> Inr (from_json j)
                 | Malformed text \<Rightarrow> Inl JSONDecodeError
                 | NotUtf8 bytes \<Rightarrow> Inl UnicodeDecodeError)))"

text \<open>
  \<open>shutil.copy2(src, dst)\<close>, with the exception it raised, if any, and the file system it
  leaves. Copying a file onto itself raises \<open>SameFileError\<close>, an \<open>OSError\<close>, before anything
  is opened. The destination is opened for writing, which empties it, before the data is
  copied; the modification time of the source is given to the copy at the end. So a copy
  that fails while the data is written leaves the destination truncated, with the time of
  the failed write \<open>now\<close>: the empty file stands for it.
\<close>

definition truncated :: "nat \<Rightarrow> fs_file" where
  "truncated now = \<lparr>content = Malformed [], mtime = now\<rparr>"

definition copy2 :: "faults \<Rightarrow> nat \<Rightarrow> path \<Rightarrow> path \<Rightarrow> fs \<Rightarrow> py_exn option \<times> fs" where
  "copy2 flt now src dst st =
     (if src = dst then (Some IOError, st)
      else if flt (OpCopy src dst) then (Some IOError, st)
      else (case lookup_file st src of
              None \<Rightarrow> (Some IOError, st)
            | Some f \<Rightarrow>
                if flt (OpCopyData src dst) then
                  (case store_file st dst (truncated now) of
                     None \<Rightarrow> (Some IOError, st)
                   | Some st' \<Rightarrow> (Some IOError, st'))
                else
                  (case store_file st dst f of
                     None \<Rightarrow> (Some IOError, st)
                   | Some st' \<Rightarrow> (None, st'))))"

subsection \<open>Backups\<close>

definition is_backup_name :: "pystr \<Rightarrow> bool" where
  "is_backup_name filename =
     (startswith filename (ascii ''config_backup_'') \<and> endswith filename (ascii ''.json''))"

definition backup_name :: "clock \<Rightarrow> pystr" where
  "backup_name clk = ascii ''config_backup_'' @ stamp clk @ ascii ''.json''"

definition get_backup_count :: "faults \<Rightarrow> fs \<Rightarrow> nat" where
  "get_backup_count flt st =
     (case backup_dir st of
        None \<Rightarrow> 0
      | Some d \<Rightarrow> if flt OpListdir then 0 else length (filter is_backup_name (map fst d)))"

text \<open>
  The loop over \<open>os.listdir(self.backup_dir)\<close> that collects \<open>(getmtime(path), path)\<close> for
  the backup files. All paths are \<open>backup_dir\<close> joined with the file name, so they compare
  as the file names do.
\<close>

fun backup_files :: "faults \<Rightarrow> fs \<Rightarrow> pystr list \<Rightarrow> py_exn + (nat \<times> pystr) list" where
  "backup_files flt st [] = Inr []"
| "backup_files flt st (filename # rest) =
     (if is_backup_name filename then
        (if flt (OpGetmtime (BackupFile filename)) then Inl IOError
         else (case lookup_file st (BackupFile filename) of
                 None \<Rightarrow> Inl IOError
               | Some f \<Rightarrow>
                   (case backup_files flt st rest of
                      Inl e \<Rightarrow> Inl e
                    | Inr found \<Rightarrow> Inr ((mtime f, filename) # found))))
      else backup_files flt st rest)"

definition all_but_last :: "'a list \<Rightarrow> nat \<Rightarrow> 'a list" where
  \<comment> \<open>the slice \<open>xs[:-n]\<close>; for \<open>n = 0\<close> it is \<open>xs[:0]\<close>, the empty list\<close>
  "all_but_last xs n = (if n = 0 then [] else take (length xs - n) xs)"

text \<open>The loop of \<open>os.remove\<close>: the first \<open>OSError\<close> ends it, and the caller ignores it.\<close>

fun remove_each :: "faults \<Rightarrow> pystr list \<Rightarrow> fs \<Rightarrow> fs" where
  "remove_each flt [] st = st"
| "remove_each flt (name # names) st =
     (if flt (OpRemove (BackupFile name)) then st
      else (case backup_dir st of
              None \<Rightarrow> st
            | Some d \<Rightarrow>
                if map_of d name = None then st
                else remove_each flt names (st\<lparr>backup_dir := Some (AList.delete name d)\<rparr>)))"

definition cleanup_old_backups :: "faults \<Rightarrow> nat \<Rightarrow> fs \<Rightarrow> fs" where
  "cleanup_old_backups flt max_backups st =
     (case backup_dir st of
        None \<Rightarrow> st
      | Some d \<Rightarrow>
          if flt OpListdir then st
          else (case backup_files flt st (map fst d) of
                  Inl e \<Rightarrow> st
                | Inr found \<Rightarrow>
                    if length found > max_backups
                      then remove_each flt (map snd (all_but_last (sort found) max_backups)) st
                    else st))"

definition backup_config :: "faults \<Rightarrow> clock \<Rightarrow> fs \<Rightarrow> path option \<times> fs" where
  "backup_config flt clk st =
     (if \<not> os_path_exists st ConfigFile then (None, st)
      else (let backup_path = BackupFile (backup_name clk) in
            case copy2 flt (fs_time clk) ConfigFile backup_path st of
              (Some e, st1) \<Rightarrow> (None, st1)
            | (None, st1) \<Rightarrow> (Some backup_path, cleanup_old_backups flt 5 st1)))"

text \<open>
  \<open>restore_from_backup\<close> catches \<open>OSError\<close> and \<open>JSONDecodeError\<close>; any other exception of
  the read leaves it.
\<close>

definition restore_from_backup :: "faults \<Rightarrow> clock \<Rightarrow> path \<Rightarrow> fs \<Rightarrow> py_exn + (bool \<times> fs)" where
  "restore_from_backup flt clk backup_path st =
     (if \<not> os_path_exists st backup_path then Inr (False, st)
      else (case json_load_file flt st backup_path of
              Inl IOError \<Rightarrow> Inr (False, st)
            | Inl JSONDecodeError \<Rightarrow> Inr (False, st)
            | Inl e \<Rightarrow> Inl e
            | Inr backup_value \<Rightarrow>
                (case copy2 flt (fs_time clk) backup_path ConfigFile st of
                   (Some e, st') \<Rightarrow> Inr (False, st')
                 | (None, st') \<Rightarrow> Inr (True, st'))))"

fun restore_first ::
  "faults \<Rightarrow> clock \<Rightarrow> (nat \<times> pystr) list \<Rightarrow> fs \<Rightarrow> py_exn + (bool \<times> fs)" where
  "restore_first flt clk [] st = Inr (False, st)"
| "restore_first flt clk (entry # rest) st =
     (case restore_from_backup flt clk (BackupFile (snd entry)) st of
        Inl e \<Rightarrow> Inl e
      | Inr (restored, st') \<Rightarrow>
          if restored then Inr (True, st') else restore_first flt clk rest st')"

definition try_restore_from_latest_backup ::
  "faults \<Rightarrow> clock \<Rightarrow> fs \<Rightarrow> py_exn + (bool \<times> fs)" where
  "try_restore_from_latest_backup flt clk st =
     (case backup_dir st of
        None \<Rightarrow> Inr (False, st)
      | Some d \<Rightarrow>
          if flt OpListdir then Inr (False, st)
          else (case backup_files flt st (map fst d) of
                  Inl e \<Rightarrow> Inr (False, st)
                | Inr found \<Rightarrow>
                    if found = [] then Inr (False, st)
                    else restore_first flt clk (rev (sort found)) st))"

subsection \<open>Saving and loading\<close>

fun with_metadata :: "pyval \<Rightarrow> pyval \<Rightarrow> pyval" where
  \<comment> \<open>\<open>c = config.copy(); c['_metadata'] = m\<close>\<close>
  "with_metadata (PDict d) m = PDict (AList.update (ascii ''_metadata'') m d)"
| "with_metadata v m = v"

definition save_config :: "faults \<Rightarrow> clock \<Rightarrow> pyval \<Rightarrow> fs \<Rightarrow> bool \<times> fs" where
  "save_config flt clk config st =
     (if \<not> fst (basic_validation config) then (False, st)
      else
        (let st1 = (if os_path_exists st ConfigFile then snd (backup_config flt clk st) else st);
             config_with_metadata =
               with_metadata config
                 (PDict [(ascii ''last_modified'', PStr (isoformat clk)),
                         (ascii ''backup_count'', PInt (int (get_backup_count flt st1)))])
         in if flt OpMakedirs then (False, st1)
            else if flt (OpWrite ConfigFile) then (False, st1)
            else (True, st1\<lparr>live := Some \<lparr>content = JsonText (to_json config_with_metadata),
                                            mtime = fs_time clk\<rparr>\<rparr>)))"

definition strip_metadata :: "(pystr \<times> pyval) list \<Rightarrow> (pystr \<times> pyval) list" where
  "strip_metadata d = filter (\<lambda>kv. fst kv \<noteq> ascii ''_metadata'') d"

text \<open>The body of the \<open>try\<close> of \<open>load_config\<close>; its \<open>except\<close> clauses follow in \<open>load_config\<close>.\<close>

definition load_config_try :: "faults \<Rightarrow> clock \<Rightarrow> fs \<Rightarrow> py_exn + (pyval \<times> fs)" where
  "load_config_try flt clk st =
     (if os_path_exists st ConfigFile then
        (case json_load_file flt st ConfigFile of
           Inl e \<Rightarrow> Inl e
         | Inr config \<Rightarrow>
             (case items config of
                Inl e \<Rightarrow> Inl e
              | Inr d \<Rightarrow> Inr (PDict (strip_metadata d), st)))
      else Inr (get_default_config, snd (save_config flt clk get_default_config st)))"

function load_config :: "faults \<Rightarrow> clock \<Rightarrow> fs \<Rightarrow> py_exn + (pyval \<times> fs)" where
  "load_config flt clk st =
     (case load_config_try flt clk st of
        Inr r \<Rightarrow> Inr r
      | Inl JSONDecodeError \<Rightarrow>
          (case try_restore_from_latest_backup flt clk st of
             Inl e \<Rightarrow> Inl e
           | Inr (backup_restored, st1) \<Rightarrow>
               if backup_restored then load_config flt clk st1
               else Inr (get_default_config, snd (save_config flt clk get_default_config st1)))
      | Inl IOError \<Rightarrow> Inr (get_default_config, st)
      | Inl e \<Rightarrow> Inl e)"
  by pat_completeness auto

termination
proof (relation "measure (\<lambda>(flt, clk, st). if load_config_try flt clk st = Inl JSONDecodeError then 1 else 0)")
  show "wf (measure (\<lambda>(flt, clk, st). if load_config_try flt clk st = Inl JSONDecodeError then 1 else 0))"
    by simp
next
  fix flt :: faults and clk :: clock and st :: fs and a :: py_exn and r x y
  assume raised: "load_config_try flt clk st = Inl a" "a = JSONDecodeError"
    and restored: "try_restore_from_latest_backup flt clk st = Inr r" "(x, y) = r" "x"
  have restore: "json_load_file flt s ConfigFile \<noteq> Inl JSONDecodeError"
    if "restore_from_backup flt clk p s0 = Inr (True, s)" for p s0 s
    using that
    by (auto simp: restore_from_backup_def copy2_def json_load_file_def os_path_exists_def
          split: if_splits sum.splits option.splits file_content.splits py_exn.splits
            prod.splits)
  have first: "restore_first flt clk entries s0 = Inr (True, s)
      \<Longrightarrow> json_load_file flt s ConfigFile \<noteq> Inl JSONDecodeError"
    for entries s0 s
  proof (induction entries arbitrary: s0)
    case Nil
    then show ?case by simp
  next
    case (Cons entry rest)
    then show ?case
      using restore by (auto split: sum.splits prod.splits if_splits)
  qed
  from restored have "try_restore_from_latest_backup flt clk st = Inr (True, y)"
    by auto
  then have "json_load_file flt y ConfigFile \<noteq> Inl JSONDecodeError"
    using first [of "rev (sort found)" st y for found]
    by (auto simp: try_restore_from_latest_backup_def split: option.splits if_splits sum.splits)
  moreover have "items v \<noteq> Inl JSONDecodeError" for v
    by (cases v) simp_all
  ultimately have "load_config_try flt clk y \<noteq> Inl JSONDecodeError"
    by (auto simp: load_config_try_def split: sum.splits)
  with raised show "((flt, clk, y), flt, clk, st)
    \<in> measure (\<lambda>(flt, clk, st). if load_config_try flt clk st = Inl JSONDecodeError then 1 else 0)"
    by simp
qed

declare load_config.simps [simp del]

section \<open>What the specification says, in the model's terms\<close>

subsection \<open>Security rejections\<close>

text \<open>
  The five causes for which the security validation rejects a path, as the specification
  lists them, and the message of each. An invalid character is named in its message.
\<close>

datatype rejection = TooLong | Traversal | InvalidChar nat | NotAbsolute | NetworkPath

fun violates :: "os_env \<Rightarrow> pystr \<Rightarrow> rejection \<Rightarrow> bool" where
  "violates env p TooLong = (length p > 260)"
| "violates env p Traversal = py_in (ascii ''..'') p"
| "violates env p (InvalidChar c) = (c \<in> INVALID_CHARS \<and> c \<in> set p)"
| "violates env p NotAbsolute = (isabs env p = Inr False)"
| "violates env p NetworkPath = startswith p (ascii [CHR 0x5C, CHR 0x5C])"

fun rejection_message :: "rejection \<Rightarrow> pystr" where
  "rejection_message TooLong = msg_path_too_long"
| "rejection_message Traversal = msg_bad_path_form"
| "rejection_message (InvalidChar c) = msg_invalid_char @ [c]"
| "rejection_message NotAbsolute = msg_not_absolute"
| "rejection_message NetworkPath = msg_network_path"

text \<open>
  An operating system for the examples: POSIX \<open>isabs\<close> (the path starts with \<open>/\<close>), one
  non-empty file \<open>/opt/app/run.EXE\<close>, one empty file \<open>/opt/app/empty.exe\<close>, the directory
  \<open>/opt/app.exe\<close>, and a \<open>Popen\<close> that returns process id 4242.
\<close>

definition example_stat :: "pystr \<Rightarrow> py_error + stat_result" where
  "example_stat p =
     (if p = ascii ''/opt/app/run.EXE'' then Inr \<lparr>st_is_dir = False, st_size = 1024\<rparr>
      else if p = ascii ''/opt/app/empty.exe'' then Inr \<lparr>st_is_dir = False, st_size = 0\<rparr>
      else if p = ascii ''/opt/app.exe'' then Inr \<lparr>st_is_dir = True, st_size = 4096\<rparr>
      else Inl (FileNotFoundError p))"

definition example_isabs :: "pystr \<Rightarrow> py_error + bool" where
  "example_isabs p = Inr (startswith p (ascii ''/''))"

definition example_suffix :: "pystr \<Rightarrow> pystr" where
  \<comment> \<open>the last four characters, which is \<open>Path(p).suffix\<close> on the paths of the examples\<close>
  "example_suffix p = drop (length p - 4) p"

definition example_Popen :: "pystr list \<Rightarrow> py_error + int" where
  "example_Popen cmd = Inr 4242"

definition example_env :: os_env where
  "example_env =
     \<lparr>isabs = example_isabs, stat = example_stat, suffix = example_suffix,
      Popen = example_Popen, invalid_chars_order = [0x3C, 0x3E, 0x7C, 0x22, 0x2A, 0x3F]\<rparr>"

subsection \<open>Type checks of the six required keys\<close>

text \<open>
  The specification's words for what \<open>save_config\<close> rejects: the argument is not a mapping,
  or one of the six required keys is present with a value that is not of its type (string,
  dict, bool, bool, int, string). \<open>typed_keys\<close> says that all six are present with values
  of their types.
\<close>

definition wrong_type :: "(pystr \<times> pyval) list \<Rightarrow> string \<Rightarrow> py_type \<Rightarrow> bool" where
  "wrong_type d key t =
     (case map_of d (ascii key) of None \<Rightarrow> False | Some v \<Rightarrow> \<not> isinstance v t)"

definition rejected :: "pyval \<Rightarrow> bool" where
  "rejected config =
     (case config of
        PDict d \<Rightarrow>
          wrong_type d ''app_path'' T_str \<or> wrong_type d ''icon_position'' T_dict
          \<or> wrong_type d ''icon_fixed'' T_bool \<or> wrong_type d ''auto_start'' T_bool
          \<or> wrong_type d ''icon_size'' T_int \<or> wrong_type d ''version'' T_str
      | _ \<Rightarrow> True)"



text \<open>Clocks, a configuration and file systems for the examples.\<close>

definition noon :: clock where
  "noon = \<lparr>stamp = ascii ''20240101_120000'', isoformat = ascii ''2024-01-01T12:00:00'',
            fs_time = 1000\<rparr>"

definition empty_fs :: fs where
  "empty_fs = \<lparr>live = None, backup_dir = Some [], others = []\<rparr>"




definition mistyped_config :: pyval where
  \<comment> \<open>\<open>{"icon_size": "32"}\<close>: one required key, with a string for an int\<close>
  "mistyped_config = PDict [(ascii ''icon_size'', PStr (ascii ''32''))]"

subsection \<open>Values that JSON represents as they are\<close>




definition array_fs :: fs where
  \<comment> \<open>the configuration file holds the JSON text \<open>[]\<close>\<close>
  "array_fs = \<lparr>live = Some \<lparr>content = JsonText (JArray []), mtime = 500\<rparr>,
                backup_dir = Some [], others = []\<rparr>"















subsection \<open>Backup rotation\<close>

text \<open>
  The backups in the directory, as \<open>(modification time, file name)\<close>: what the rotation
  sorts. \<open>save_each\<close> is a run of successive saves, each with its clock reading and its
  configuration, that stops at the first save that fails.
\<close>

definition backup_entries :: "fs \<Rightarrow> (nat \<times> pystr) list" where
  "backup_entries st =
     (case backup_dir st of
        None \<Rightarrow> []
      | Some d \<Rightarrow> map (\<lambda>e. (mtime (snd e), fst e)) (filter (\<lambda>e. is_backup_name (fst e)) d))"

fun save_each :: "faults \<Rightarrow> (clock \<times> pyval) list \<Rightarrow> fs \<Rightarrow> bool \<times> fs" where
  "save_each flt [] st = (True, st)"
| "save_each flt (save # saves) st =
     (case save_config flt (fst save) (snd save) st of
        (saved, st') \<Rightarrow> if saved then save_each flt saves st' else (False, st'))"

definition same_second :: "nat \<Rightarrow> clock" where
  \<comment> \<open>clock readings within the second 12:00:00 of 1 January 2024\<close>
  "same_second k = \<lparr>stamp = ascii ''20240101_120000'', isoformat = ascii ''2024-01-01T12:00:00'',
                     fs_time = 1000 + k\<rparr>"

definition seeded_fs :: fs where
  "seeded_fs = \<lparr>live = Some \<lparr>content = JsonText (to_json get_default_config), mtime = 500\<rparr>,
                 backup_dir = Some [], others = []\<rparr>"

definition same_second_saves :: "(clock \<times> pyval) list" where
  "same_second_saves =
     [(same_second 0, get_default_config), (same_second 1, get_default_config),
      (same_second 2, get_default_config), (same_second 3, get_default_config),
      (same_second 4, get_default_config), (same_second 5, get_default_config)]"

definition daily :: "nat \<Rightarrow> clock" where
  \<comment> \<open>noon of day \<open>k\<close> of January 2024, for \<open>k\<close> from 0 to 9\<close>
  "daily k = \<lparr>stamp = ascii ''2024010'' @ [0x30 + k] @ ascii ''_120000'',
               isoformat = ascii ''2024-01-0'' @ [0x30 + k] @ ascii ''T12:00:00'',
               fs_time = 1000 * k\<rparr>"

definition daily_saves :: "(clock \<times> pyval) list" where
  "daily_saves =
     [(daily 2, get_default_config), (daily 3, get_default_config),
      (daily 4, get_default_config), (daily 5, get_default_config),
      (daily 6, get_default_config), (daily 7, get_default_config)]"

section \<open>The launch gate: theorems\<close>

subsection \<open>Security rejections\<close>

lemma find_invalid_char:
  "find (\<lambda>c. c \<in> set p) order = Some c \<Longrightarrow> c \<in> set order \<and> c \<in> set p"
  by (induction order) (auto split: if_splits)

lemma find_no_invalid_char:
  "find (\<lambda>c. c \<in> set p) order = None \<Longrightarrow> c \<in> set order \<Longrightarrow> c \<notin> set p"
  by (induction order) (auto split: if_splits)

lemma rejection_message_nonempty: "rejection_message r \<noteq> []"
  by (cases r)
     (simp_all add: msg_path_too_long_def msg_bad_path_form_def msg_not_absolute_def
        msg_network_path_def)

lemma rejection_message_length:
  "length (rejection_message r) =
     (case r of TooLong \<Rightarrow> 12 | Traversal \<Rightarrow> 20 | InvalidChar c \<Rightarrow> 27
              | NotAbsolute \<Rightarrow> 24 | NetworkPath \<Rightarrow> 31)"
  by (cases r)
     (simp_all add: msg_path_too_long_def msg_bad_path_form_def msg_not_absolute_def
        msg_network_path_def msg_invalid_char_def)

lemma rejection_message_inj:
  assumes "rejection_message r1 = rejection_message r2"
  shows "r1 = r2"
proof -
  from assms have "length (rejection_message r1) = length (rejection_message r2)"
    by simp
  then have same: "(\<exists>c d. r1 = InvalidChar c \<and> r2 = InvalidChar d) \<or> r1 = r2"
    unfolding rejection_message_length by (cases r1; cases r2) simp_all
  with assms show ?thesis by auto
qed

lemma validate_security_rejects:
  assumes order: "set (invalid_chars_order env) = INVALID_CHARS"
    and viol: "violates env p r"
    and ret: "isabs env p = Inr b"
  shows "\<exists>r'. violates env p r' \<and> validate_security env p = (False, Some (rejection_message r'))"
proof (cases "length p > MAX_PATH_LENGTH")
  case True
  then have "violates env p TooLong" by (simp add: MAX_PATH_LENGTH_def)
  moreover from True have "validate_security env p = (False, Some (rejection_message TooLong))"
    by (simp add: validate_security_def)
  ultimately show ?thesis by blast
next
  case short: False
  show ?thesis
  proof (cases "py_in (ascii ''..'') p")
    case True
    then have "violates env p Traversal" by simp
    moreover from short True
    have "validate_security env p = (False, Some (rejection_message Traversal))"
      by (simp add: validate_security_def)
    ultimately show ?thesis by blast
  next
    case notrav: False
    show ?thesis
    proof (cases "find (\<lambda>c. c \<in> set p) (invalid_chars_order env)")
      case (Some c)
      then have "violates env p (InvalidChar c)"
        using find_invalid_char [OF Some] order by simp
      moreover from short notrav Some
      have "validate_security env p = (False, Some (rejection_message (InvalidChar c)))"
        by (simp add: validate_security_def)
      ultimately show ?thesis by blast
    next
      case None
      have nochar: "\<not> violates env p (InvalidChar c)" for c
        using find_no_invalid_char [OF None] order by auto
      show ?thesis
      proof (cases b)
        case False
        with ret have "violates env p NotAbsolute" by simp
        moreover from short notrav None ret False
        have "validate_security env p = (False, Some (rejection_message NotAbsolute))"
          by (simp add: validate_security_def)
        ultimately show ?thesis by blast
      next
        case True
        with viol short notrav nochar ret have unc: "violates env p NetworkPath"
          by (cases r) (auto simp: MAX_PATH_LENGTH_def)
        then have "startswith p [0x5C, 0x5C]" by (simp add: ascii_def)
        with short notrav None ret True
        have "validate_security env p = (False, Some (rejection_message NetworkPath))"
          by (simp add: validate_security_def)
        with unc show ?thesis by blast
      qed
    qed
  qed
qed

lemma validate_security_message:
  "validate_security env p = (False, m) \<Longrightarrow> \<exists>t. m = Some t \<and> t \<noteq> []"
  by (auto simp: validate_security_def msg_path_too_long_def msg_bad_path_form_def
        msg_not_absolute_def msg_network_path_def msg_security_exn_def
      split: if_splits option.splits sum.splits)

lemma validate_security_violation:
  assumes order: "set (invalid_chars_order env) = INVALID_CHARS"
    and viol: "violates env p r"
  shows "fst (validate_security env p) = False"
proof (cases "isabs env p")
  case (Inl e)
  with viol order show ?thesis
    using find_no_invalid_char [of p "invalid_chars_order env"]
    by (cases r) (auto simp: validate_security_def MAX_PATH_LENGTH_def ascii_def
        split: option.splits)
next
  case (Inr b)
  from validate_security_rejects [OF order viol Inr] show ?thesis by auto
qed

text \<open>
  Claim C1. A path that violates one of the five security checks (longer than 260
  characters, containing \<open>..\<close>, containing one of \<open>< > | " * ?\<close>, not absolute, starting
  with two backslashes) makes \<open>launch_application\<close> return a result with \<open>success = False\<close>
  and a non-empty \<open>error_message\<close>, the one \<open>validate_security\<close> produced, and nothing is
  handed to \<open>Popen\<close>: the list of spawned command lines is unchanged. When \<open>os.path.isabs\<close>
  returns, the message is that of a check the path violates, and no other cause has that
  message. The validation is a total function with a value in every case, also when
  \<open>os.path.isabs\<close> raises: it raises nothing itself.
\<close>

theorem security_rejection:
  assumes order: "set (invalid_chars_order env) = INVALID_CHARS"
    and viol: "violates env p r"
  shows "\<exists>m. launch_application env p args elapsed spawned =
             (\<lparr>success = False, process_id = None, error_code = None,
               error_message = Some m, execution_time = elapsed\<rparr>, spawned)
           \<and> m \<noteq> []
           \<and> validate_security env p = (False, Some m)
           \<and> ((\<exists>b. isabs env p = Inr b) \<longrightarrow>
                (\<exists>r'. violates env p r' \<and> m = rejection_message r'
                       \<and> (\<forall>r''. rejection_message r'' = m \<longrightarrow> r'' = r')))"
proof -
  from validate_security_violation [OF order viol]
  obtain m0 where v: "validate_security env p = (False, m0)"
    by (cases "validate_security env p") auto
  from validate_security_message [OF v] obtain m where m: "m0 = Some m" "m \<noteq> []"
    by blast
  have "launch_application env p args elapsed spawned =
          (\<lparr>success = False, process_id = None, error_code = None,
            error_message = Some m, execution_time = elapsed\<rparr>, spawned)"
    using v m by (simp add: launch_application_def)
  moreover have "\<exists>r'. violates env p r' \<and> m = rejection_message r'
                   \<and> (\<forall>r''. rejection_message r'' = m \<longrightarrow> r'' = r')"
    if "isabs env p = Inr b" for b
  proof -
    from validate_security_rejects [OF order viol that] v m
    obtain r' where "violates env p r'" "m = rejection_message r'" by auto
    then show ?thesis using rejection_message_inj by blast
  qed
  ultimately show ?thesis using v m by blast
qed


theorem security_rejection_witness:
  "set (invalid_chars_order example_env) = INVALID_CHARS
   \<and> violates example_env (ascii ''../x.exe'') Traversal
   \<and> launch_application example_env (ascii ''../x.exe'') None 0 [] =
       (\<lparr>success = False, process_id = None, error_code = None,
         error_message = Some msg_bad_path_form, execution_time = 0\<rparr>, [])"
proof -
  have order: "set (invalid_chars_order example_env) = INVALID_CHARS"
    by (simp add: example_env_def INVALID_CHARS_def)
  have viol: "violates example_env (ascii ''../x.exe'') Traversal"
    by (simp add: ascii_def startswith_def)
  have "validate_security example_env (ascii ''../x.exe'') = (False, Some msg_bad_path_form)"
    by (simp add: validate_security_def MAX_PATH_LENGTH_def ascii_def startswith_def)
  with security_rejection [OF order viol, of None 0 "[]"] order viol
  show ?thesis by auto
qed

subsection \<open>Executable files\<close>

text \<open>
  Claim C9. \<open>is_valid_executable\<close> holds exactly when the path exists, is not a directory,
  has a suffix that lowered is one of \<open>.exe .com .bat .cmd .msi .ps1\<close>, and has a size
  greater than 0; a file of zero bytes and a directory both fail.
\<close>

theorem is_valid_executable_iff:
  "(is_valid_executable env p \<longleftrightarrow>
      path_exists env p \<and> \<not> path_is_dir env p
      \<and> lower (suffix env p) \<in> VALID_EXTENSIONS
      \<and> (\<exists>s. stat env p = Inr s \<and> 0 < st_size s))
   \<and> (\<forall>s. stat env p = Inr s \<and> st_size s = 0 \<longrightarrow> \<not> is_valid_executable env p)
   \<and> (\<forall>s. stat env p = Inr s \<and> st_is_dir s \<longrightarrow> \<not> is_valid_executable env p)"
  by (auto simp: is_valid_executable_def path_exists_def path_is_dir_def split: sum.splits)

lemma example_stat_simps:
  "stat example_env (ascii ''/opt/app/run.EXE'') = Inr \<lparr>st_is_dir = False, st_size = 1024\<rparr>"
  "stat example_env (ascii ''/opt/app/empty.exe'') = Inr \<lparr>st_is_dir = False, st_size = 0\<rparr>"
  "stat example_env (ascii ''/opt/app.exe'') = Inr \<lparr>st_is_dir = True, st_size = 4096\<rparr>"
  by (simp_all add: example_env_def example_stat_def ascii_def)

lemma example_suffix_run:
  "lower (suffix example_env (ascii ''/opt/app/run.EXE'')) \<in> VALID_EXTENSIONS"
  by (simp add: example_env_def example_suffix_def ascii_def lower_def lower_cp_def
        VALID_EXTENSIONS_def)

theorem is_valid_executable_iff_witness:
  "is_valid_executable example_env (ascii ''/opt/app/run.EXE'')
   \<and> stat example_env (ascii ''/opt/app/empty.exe'') = Inr \<lparr>st_is_dir = False, st_size = 0\<rparr>
   \<and> \<not> is_valid_executable example_env (ascii ''/opt/app/empty.exe'')
   \<and> stat example_env (ascii ''/opt/app.exe'') = Inr \<lparr>st_is_dir = True, st_size = 4096\<rparr>
   \<and> \<not> is_valid_executable example_env (ascii ''/opt/app.exe'')"
  using is_valid_executable_iff [of example_env "ascii ''/opt/app/run.EXE''"]
    is_valid_executable_iff [of example_env "ascii ''/opt/app/empty.exe''"]
    is_valid_executable_iff [of example_env "ascii ''/opt/app.exe''"]
    example_suffix_run
  by (simp add: example_stat_simps path_exists_def path_is_dir_def)

subsection \<open>Launching as administrator\<close>

text \<open>
  Claim C10. For every path and argument list \<open>launch_with_admin\<close> returns a result with
  \<open>success = True\<close> and \<open>process_id = None\<close> and hands nothing to \<open>Popen\<close>: it looks at
  neither the file system nor the security checks.
\<close>

theorem launch_with_admin_always_succeeds:
  "launch_with_admin env app_path args elapsed spawned =
     (\<lparr>success = True, process_id = None, error_code = None, error_message = None,
       execution_time = elapsed\<rparr>, spawned)"
  by (simp add: launch_with_admin_def)

section \<open>The configuration store: theorems\<close>

subsection \<open>What save_config rejects\<close>

lemma basic_validation_rejected: "fst (basic_validation config) = (\<not> rejected config)"
  by (cases config)
     (auto simp: basic_validation_def rejected_def wrong_type_def type_checks_def
        type_error_def Let_def split: option.splits)

text \<open>
  Claim C8. \<open>save_config\<close> returns \<open>False\<close> and leaves the file system as it was (no write
  to the configuration file, no backup) when its argument is not a mapping or when one of
  the six required keys is present with a value of the wrong type. Nothing else makes the
  basic validation fail: missing keys are tolerated (the empty mapping passes), and a
  configuration that is not rejected is saved whenever the operating system lets
  \<open>makedirs\<close> and the write go through.
\<close>

theorem save_config_type_checks:
  "(rejected config \<longrightarrow> save_config flt clk config st = (False, st))
   \<and> (\<not> rejected config \<longrightarrow>
        basic_validation config = (True, [])
        \<and> (\<not> flt OpMakedirs \<and> \<not> flt (OpWrite ConfigFile)
             \<longrightarrow> fst (save_config flt clk config st)))
   \<and> \<not> rejected (PDict [])"
proof -
  have "basic_validation config = (True, [])" if "\<not> rejected config"
    using that basic_validation_rejected [of config]
    by (cases config) (auto simp: basic_validation_def Let_def)
  moreover have "\<not> rejected (PDict [])"
    by (simp add: rejected_def wrong_type_def)
  ultimately show ?thesis
    using basic_validation_rejected [of config]
    by (auto simp: save_config_def Let_def)
qed

theorem save_config_type_checks_witness:
  "rejected mistyped_config \<and> rejected PNone
   \<and> save_config no_faults noon mistyped_config empty_fs = (False, empty_fs)
   \<and> save_config no_faults noon PNone empty_fs = (False, empty_fs)
   \<and> \<not> rejected (PDict [])
   \<and> \<not> no_faults OpMakedirs \<and> \<not> no_faults (OpWrite ConfigFile)
   \<and> fst (save_config no_faults noon (PDict []) empty_fs)"
  using save_config_type_checks [of mistyped_config no_faults noon empty_fs]
    save_config_type_checks [of PNone no_faults noon empty_fs]
    save_config_type_checks [of "PDict []" no_faults noon empty_fs]
  by (simp add: rejected_def wrong_type_def mistyped_config_def ascii_def no_faults_def)


subsection \<open>Strict validation against the type checks of save_config\<close>






subsection \<open>Restoring a backup\<close>



subsection \<open>Exceptions that leave the store\<close>

text \<open>
  Claim C6 says that no public method raises, whatever the input. \<open>validate_config(None)\<close>
  raises \<open>TypeError\<close> at its first \<open>key not in config\<close>, and \<open>load_config\<close> raises
  \<open>AttributeError\<close> at \<open>config.items()\<close> when the configuration file holds the JSON text
  \<open>[]\<close>: neither exception is among those the methods catch.
\<close>

theorem public_methods_raise:
  "validate_config PNone = Inl TypeError
   \<and> load_config no_faults noon array_fs = Inl AttributeError"
  by (simp add: validate_config_def required_keys_def load_config.simps load_config_try_def
        os_path_exists_def json_load_file_def array_fs_def no_faults_def)

subsection \<open>Saving, then loading\<close>









subsection \<open>Recovery from a corrupt configuration file\<close>

lemma backup_files_found:
  assumes dir: "backup_dir st = Some d"
    and names: "set names \<subseteq> fst ` set d"
    and io: "\<forall>n\<in>set names. \<not> flt (OpGetmtime (BackupFile n))"
  shows "backup_files flt st names =
           Inr (map (\<lambda>n. (mtime (the (map_of d n)), n)) (filter is_backup_name names))"
  using names io
proof (induction names)
  case Nil
  then show ?case by simp
next
  case (Cons n names)
  then obtain f where "map_of d n = Some f"
    by (cases "map_of d n") (auto simp: map_of_eq_None_iff)
  with Cons dir show ?case by simp
qed











subsection \<open>Backup rotation\<close>

lemma backup_name_is_backup_name: "is_backup_name (backup_name clk)"
  by (simp add: is_backup_name_def backup_name_def startswith_def endswith_def)

lemma backup_name_inj: "backup_name c = backup_name c' \<longleftrightarrow> stamp c = stamp c'"
  by (simp add: backup_name_def)

lemma found_entries:
  assumes "distinct (map fst d)"
  shows "map (\<lambda>n. (mtime (the (map_of d n)), n)) (filter is_backup_name (map fst d)) =
         map (\<lambda>e. (mtime (snd e), fst e)) (filter (\<lambda>e. is_backup_name (fst e)) d)"
proof -
  have "filter is_backup_name (map fst d) = map fst (filter (\<lambda>e. is_backup_name (fst e)) d)"
    by (simp add: filter_map comp_def)
  moreover have "map_of d (fst e) = Some (snd e)" if "e \<in> set d" for e
    using map_of_is_SomeI [OF assms, of "fst e" "snd e"] that by simp
  ultimately show ?thesis by simp
qed

lemma backup_files_entries:
  assumes dir: "backup_dir st = Some d" and dist: "distinct (map fst d)"
    and io: "\<forall>n\<in>fst ` set d. \<not> flt (OpGetmtime (BackupFile n))"
  shows "backup_files flt st (map fst d) = Inr (backup_entries st)"
  using backup_files_found [OF dir, of "map fst d" flt] io found_entries [OF dist] dir
  by (simp add: backup_entries_def)

lemma remove_each_filter:
  assumes "backup_dir st = Some d" and "distinct names" and "set names \<subseteq> fst ` set d"
    and "\<forall>n\<in>set names. \<not> flt (OpRemove (BackupFile n))"
  shows "remove_each flt names st =
           st\<lparr>backup_dir := Some (filter (\<lambda>e. fst e \<notin> set names) d)\<rparr>"
  using assms
proof (induction names arbitrary: st d)
  case Nil
  then show ?case by simp
next
  case (Cons n names)
  let ?d = "AList.delete n d"
  let ?st = "st\<lparr>backup_dir := Some ?d\<rparr>"
  from Cons.prems have present: "map_of d n \<noteq> None"
    by (simp add: map_of_eq_None_iff)
  have d: "?d = filter (\<lambda>e. fst e \<noteq> n) d"
    by (simp add: AList.delete_eq case_prod_unfold eq_commute)
  have "set names \<subseteq> fst ` set ?d"
  proof
    fix x assume x: "x \<in> set names"
    with Cons.prems(3) have "x \<in> fst ` set d" by auto
    then obtain e where "e \<in> set d" "fst e = x" by auto
    moreover from Cons.prems(2) x have "x \<noteq> n" by auto
    ultimately show "x \<in> fst ` set ?d"
      unfolding d by force
  qed
  with Cons.prems have "remove_each flt names ?st =
      ?st\<lparr>backup_dir := Some (filter (\<lambda>e. fst e \<notin> set names) ?d)\<rparr>"
    by (intro Cons.IH) simp_all
  moreover have "filter (\<lambda>e. fst e \<notin> set names) ?d = filter (\<lambda>e. fst e \<notin> set (n # names)) d"
    unfolding d by (simp add: conj_commute)
  ultimately show ?case
    using Cons.prems present by auto
qed


lemma backup_entries_distinct:
  assumes "backup_dir st = Some d" and "distinct (map fst d)"
  shows "distinct (map snd (backup_entries st))"
proof -
  have "map snd (backup_entries st) = filter is_backup_name (map fst d)"
    using assms(1) by (simp add: backup_entries_def filter_map comp_def)
  with assms(2) show ?thesis by simp
qed

lemma backup_entries_names:
  assumes "backup_dir st = Some d"
  shows "snd ` set (backup_entries st) \<subseteq> fst ` set d"
  using assms by (auto simp: backup_entries_def intro: rev_image_eqI)

lemma backup_entries_filter:
  assumes "backup_dir st = Some d"
  shows "backup_entries (st\<lparr>backup_dir := Some (filter (\<lambda>e. fst e \<notin> N) d)\<rparr>) =
         filter (\<lambda>x. snd x \<notin> N) (backup_entries st)"
  using assms by (simp add: backup_entries_def filter_map comp_def conj_commute)

lemma cleanup_old_backups_keeps_latest:
  assumes dir: "backup_dir st = Some d" and dist: "distinct (map fst d)"
    and io: "\<not> flt OpListdir" "\<forall>n\<in>fst ` set d. \<not> flt (OpGetmtime (BackupFile n))"
      "\<forall>n\<in>fst ` set d. \<not> flt (OpRemove (BackupFile n))"
  shows "length (backup_entries (cleanup_old_backups flt 5 st)) = min 5 (length (backup_entries st))
    \<and> set (backup_entries (cleanup_old_backups flt 5 st)) \<subseteq> set (backup_entries st)
    \<and> (\<forall>x\<in>set (backup_entries st) - set (backup_entries (cleanup_old_backups flt 5 st)).
         \<forall>y\<in>set (backup_entries (cleanup_old_backups flt 5 st)). x < y)"
proof (cases "length (backup_entries st) > 5")
  case False
  then have "cleanup_old_backups flt 5 st = st"
    using dir io backup_files_entries [OF dir dist io(2)]
    by (simp add: cleanup_old_backups_def)
  with False show ?thesis by simp
next
  case True
  let ?E = "backup_entries st"
  let ?S = "sort ?E"
  let ?k = "length ?E - 5"
  let ?T = "take ?k ?S"
  let ?N = "set (map snd ?T)"
  let ?st' = "st\<lparr>backup_dir := Some (filter (\<lambda>e. fst e \<notin> ?N) d)\<rparr>"
  have dE: "distinct (map snd ?E)"
    by (rule backup_entries_distinct [OF dir dist])
  then have distE: "distinct ?E" and inj: "inj_on snd (set ?E)"
    by (simp_all add: distinct_map)
  have distS: "distinct ?S" using distE by simp
  have T_sub: "set ?T \<subseteq> set ?E"
    using set_take_subset [of ?k ?S] by simp
  have "distinct (map snd ?T)"
    using distS inj T_sub by (simp add: distinct_map inj_on_subset)
  moreover have "set (map snd ?T) \<subseteq> fst ` set d"
    using T_sub backup_entries_names [OF dir] by auto
  moreover have "\<forall>n\<in>set (map snd ?T). \<not> flt (OpRemove (BackupFile n))"
    using calculation(2) io(3) by blast
  ultimately have removed: "remove_each flt (map snd ?T) st = ?st'"
    by (rule remove_each_filter [OF dir])
  have "all_but_last ?S 5 = ?T"
    by (simp add: all_but_last_def)
  with True have cleaned: "cleanup_old_backups flt 5 st = ?st'"
    using dir io backup_files_entries [OF dir dist io(2)] removed
    by (simp add: cleanup_old_backups_def)
  have "backup_entries ?st' = filter (\<lambda>x. snd x \<notin> ?N) ?E"
    by (rule backup_entries_filter [OF dir])
  moreover have "snd x \<notin> ?N \<longleftrightarrow> x \<notin> set ?T" if "x \<in> set ?E" for x
    using that T_sub inj by (auto simp: inj_on_def)
  ultimately have E': "backup_entries ?st' = filter (\<lambda>x. x \<notin> set ?T) ?E"
    by (simp cong: filter_cong)
  have split: "?S = ?T @ drop ?k ?S" by simp
  have "set ?E = set ?T \<union> set (drop ?k ?S)"
    using arg_cong [OF split, of set] by (simp del: append_take_drop_id)
  moreover have disj: "set ?T \<inter> set (drop ?k ?S) = {}"
    using distS split by (metis distinct_append)
  ultimately have setE': "set (backup_entries ?st') = set (drop ?k ?S)"
    unfolding E' by auto
  have "distinct (backup_entries ?st')"
    unfolding E' using distE by simp
  then have "length (backup_entries ?st') = card (set (drop ?k ?S))"
    using setE' distinct_card by metis
  also have "\<dots> = length (drop ?k ?S)"
    using distS by (simp add: distinct_card)
  also have "\<dots> = 5" using True by simp
  finally have len: "length (backup_entries ?st') = min 5 (length ?E)"
    using True by simp
  have sub: "set (backup_entries ?st') \<subseteq> set ?E"
    unfolding E' by auto
  have ord: "x < y" if x: "x \<in> set ?E - set (backup_entries ?st')"
    and y: "y \<in> set (backup_entries ?st')" for x y
  proof -
    from x have xT: "x \<in> set ?T" unfolding E' by auto
    from y have yD: "y \<in> set (drop ?k ?S)" using setE' by simp
    have "sorted (?T @ drop ?k ?S)" using split sorted_sort [of ?E] by (simp del: append_take_drop_id)
    with xT yD have "x \<le> y" unfolding sorted_append by blast
    moreover from xT yD disj have "x \<noteq> y" by auto
    ultimately show ?thesis by simp
  qed
  from len sub ord show ?thesis unfolding cleaned by blast
qed

lemma cleanup_old_backups_few:
  assumes dir: "backup_dir st = Some d" and dist: "distinct (map fst d)"
    and io: "\<forall>op. \<not> flt op"
    and few: "length (backup_entries st) \<le> 5"
  shows "cleanup_old_backups flt 5 st = st"
  using few dir io backup_files_entries [OF dir dist, of flt]
  by (simp add: cleanup_old_backups_def)

lemma backup_config_copy:
  assumes io: "\<forall>op. \<not> flt op" and live: "live st = Some f" and dir: "backup_dir st = Some d"
  shows "backup_config flt clk st =
           (Some (BackupFile (backup_name clk)),
            cleanup_old_backups flt 5
              (st\<lparr>backup_dir := Some (AList.update (backup_name clk) f d)\<rparr>))"
  using assms by (simp add: backup_config_def os_path_exists_def copy2_def)

lemma cleanup_old_backups_live: "live (cleanup_old_backups flt n st) = live st"
proof -
  have "live (remove_each flt names s) = live s" for names s
    by (induction names arbitrary: s) (auto split: option.splits)
  then show ?thesis
    by (auto simp: cleanup_old_backups_def split: option.splits sum.splits)
qed

lemma save_config_step:
  assumes io: "\<forall>op. \<not> flt op" and live: "live st = Some f" and dir: "backup_dir st = Some d"
    and valid: "fst (basic_validation config)"
  shows "\<exists>new. mtime new = fs_time clk \<and>
           save_config flt clk config st =
             (True, (cleanup_old_backups flt 5
                      (st\<lparr>backup_dir := Some (AList.update (backup_name clk) f d)\<rparr>))
                    \<lparr>live := Some new\<rparr>)"
proof -
  let ?st1 = "cleanup_old_backups flt 5
                (st\<lparr>backup_dir := Some (AList.update (backup_name clk) f d)\<rparr>)"
  let ?new = "\<lparr>content = JsonText (to_json (with_metadata config
                  (PDict [(ascii ''last_modified'', PStr (isoformat clk)),
                          (ascii ''backup_count'', PInt (int (get_backup_count flt ?st1)))]))),
               mtime = fs_time clk\<rparr>"
  have "backup_config flt clk st = (Some (BackupFile (backup_name clk)), ?st1)"
    by (rule backup_config_copy [OF io live dir])
  moreover have "\<not> flt OpMakedirs" "\<not> flt (OpWrite ConfigFile)"
    using io by simp_all
  ultimately have "save_config flt clk config st = (True, ?st1\<lparr>live := Some ?new\<rparr>)"
    using valid live by (simp add: save_config_def os_path_exists_def Let_def)
  moreover have "mtime ?new = fs_time clk" by simp
  ultimately show ?thesis by blast
qed


lemma update_fresh: "k \<notin> fst ` set d \<Longrightarrow> AList.update k v d = d @ [(k, v)]"
  by (induction d) auto

lemma save_config_few:
  assumes io: "\<forall>op. \<not> flt op" and live: "live st = Some f" and dir: "backup_dir st = Some d"
    and valid: "fst (basic_validation config)"
    and dist: "distinct (map fst d)" and fresh: "backup_name clk \<notin> fst ` set d"
    and few: "length d < 5"
  shows "\<exists>new. mtime new = fs_time clk \<and>
           save_config flt clk config st =
             (True, st\<lparr>backup_dir := Some (d @ [(backup_name clk, f)]), live := Some new\<rparr>)"
proof -
  let ?d = "d @ [(backup_name clk, f)]"
  let ?st1 = "st\<lparr>backup_dir := Some ?d\<rparr>"
  have "length (backup_entries ?st1) = length (filter (\<lambda>e. is_backup_name (fst e)) ?d)"
    by (simp add: backup_entries_def)
  also have "\<dots> \<le> length ?d"
    by (rule length_filter_le)
  finally have "length (backup_entries ?st1) \<le> length ?d" .
  with few have "length (backup_entries ?st1) \<le> 5" by simp
  moreover have "distinct (map fst ?d)" using dist fresh by simp
  ultimately have "cleanup_old_backups flt 5 ?st1 = ?st1"
    using cleanup_old_backups_few [of ?st1 ?d flt] io by simp
  with save_config_step [OF io live dir valid, of clk] update_fresh [OF fresh, of f]
  show ?thesis by simp
qed

lemma save_config_sixth:
  assumes io: "\<forall>op. \<not> flt op" and live: "live st = Some f" and valid: "fst (basic_validation config)"
    and dir: "backup_dir st = Some [(n1, f1), (n2, f2), (n3, f3), (n4, f4), (n5, f5)]"
    and names: "distinct [n1, n2, n3, n4, n5, backup_name clk]"
      "is_backup_name n1" "is_backup_name n2" "is_backup_name n3" "is_backup_name n4"
      "is_backup_name n5"
    and times: "sorted_wrt (<) [mtime f1, mtime f2, mtime f3, mtime f4, mtime f5, mtime f]"
  shows "\<exists>new. mtime new = fs_time clk \<and>
           save_config flt clk config st =
             (True, st\<lparr>backup_dir := Some [(n2, f2), (n3, f3), (n4, f4), (n5, f5),
                                            (backup_name clk, f)],
                        live := Some new\<rparr>)"
proof -
  let ?n = "backup_name clk"
  let ?d = "[(n1, f1), (n2, f2), (n3, f3), (n4, f4), (n5, f5), (?n, f)]"
  let ?st1 = "st\<lparr>backup_dir := Some ?d\<rparr>"
  let ?E = "[(mtime f1, n1), (mtime f2, n2), (mtime f3, n3), (mtime f4, n4), (mtime f5, n5),
             (mtime f, ?n)]"
  have upd: "AList.update ?n f [(n1, f1), (n2, f2), (n3, f3), (n4, f4), (n5, f5)] = ?d"
    using names(1) by (subst update_fresh) auto
  have dist: "distinct (map fst ?d)" using names(1) by simp
  have entries: "backup_entries ?st1 = ?E"
    using names backup_name_is_backup_name [of clk] by (simp add: backup_entries_def)
  have "sorted ?E" using times by (auto simp: less_eq_prod_def)
  then have sorted: "sort ?E = ?E" by (rule sort_key_id_if_sorted [where f = "\<lambda>x. x", simplified])
  have found: "backup_files flt ?st1 (map fst ?d) = Inr ?E"
    using backup_files_entries [of ?st1 ?d flt] dist io entries by simp
  have remove: "remove_each flt [n1] ?st1 =
      st\<lparr>backup_dir := Some [(n2, f2), (n3, f3), (n4, f4), (n5, f5), (?n, f)]\<rparr>"
    using io names(1) by auto
  have "cleanup_old_backups flt 5 ?st1 =
      st\<lparr>backup_dir := Some [(n2, f2), (n3, f3), (n4, f4), (n5, f5), (?n, f)]\<rparr>"
    using io found sorted remove
    by (simp add: cleanup_old_backups_def all_but_last_def)
  with save_config_step [OF io live dir valid, of clk] upd
  show ?thesis by simp
qed

lemma six_saves:
  assumes io: "\<forall>op. \<not> flt op"
    and live: "live st = Some f0" and dir: "backup_dir st = Some []"
    and valid: "fst (basic_validation g1)" "fst (basic_validation g2)" "fst (basic_validation g3)"
      "fst (basic_validation g4)" "fst (basic_validation g5)" "fst (basic_validation g6)"
    and stamps: "distinct [stamp c1, stamp c2, stamp c3, stamp c4, stamp c5, stamp c6]"
    and times: "sorted_wrt (<) [mtime f0, fs_time c1, fs_time c2, fs_time c3, fs_time c4,
                  fs_time c5, fs_time c6]"
  shows "\<exists>st'. save_each flt [(c1, g1), (c2, g2), (c3, g3), (c4, g4), (c5, g5), (c6, g6)] st
                 = (True, st')
           \<and> backup_entries st' =
               [(fs_time c1, backup_name c2), (fs_time c2, backup_name c3),
                (fs_time c3, backup_name c4), (fs_time c4, backup_name c5),
                (fs_time c5, backup_name c6)]"
proof -
  let ?n1 = "backup_name c1" and ?n2 = "backup_name c2" and ?n3 = "backup_name c3"
  let ?n4 = "backup_name c4" and ?n5 = "backup_name c5" and ?n6 = "backup_name c6"
  have names: "distinct [?n1, ?n2, ?n3, ?n4, ?n5, ?n6]"
    using stamps by (simp add: backup_name_inj)
  note bn = backup_name_is_backup_name
  from save_config_few [OF io live dir valid(1), of c1] obtain l1
    where l1: "mtime l1 = fs_time c1"
      and s1: "save_config flt c1 g1 st =
                 (True, st\<lparr>backup_dir := Some [(?n1, f0)], live := Some l1\<rparr>)"
    by auto
  let ?s1 = "st\<lparr>backup_dir := Some [(?n1, f0)], live := Some l1\<rparr>"
  from save_config_few [OF io _ _ valid(2), of ?s1 l1 "[(?n1, f0)]" c2] names obtain l2
    where l2: "mtime l2 = fs_time c2"
      and s2: "save_config flt c2 g2 ?s1 =
                 (True, st\<lparr>backup_dir := Some [(?n1, f0), (?n2, l1)], live := Some l2\<rparr>)"
    by auto
  let ?s2 = "st\<lparr>backup_dir := Some [(?n1, f0), (?n2, l1)], live := Some l2\<rparr>"
  from save_config_few [OF io _ _ valid(3), of ?s2 l2 "[(?n1, f0), (?n2, l1)]" c3] names
  obtain l3
    where l3: "mtime l3 = fs_time c3"
      and s3: "save_config flt c3 g3 ?s2 =
                 (True, st\<lparr>backup_dir := Some [(?n1, f0), (?n2, l1), (?n3, l2)],
                           live := Some l3\<rparr>)"
    by auto
  let ?s3 = "st\<lparr>backup_dir := Some [(?n1, f0), (?n2, l1), (?n3, l2)], live := Some l3\<rparr>"
  from save_config_few [OF io _ _ valid(4), of ?s3 l3 "[(?n1, f0), (?n2, l1), (?n3, l2)]" c4]
    names
  obtain l4
    where l4: "mtime l4 = fs_time c4"
      and s4: "save_config flt c4 g4 ?s3 =
                 (True, st\<lparr>backup_dir := Some [(?n1, f0), (?n2, l1), (?n3, l2), (?n4, l3)],
                           live := Some l4\<rparr>)"
    by auto
  let ?s4 = "st\<lparr>backup_dir := Some [(?n1, f0), (?n2, l1), (?n3, l2), (?n4, l3)],
                live := Some l4\<rparr>"
  from save_config_few [OF io _ _ valid(5), of ?s4 l4
      "[(?n1, f0), (?n2, l1), (?n3, l2), (?n4, l3)]" c5] names
  obtain l5
    where l5: "mtime l5 = fs_time c5"
      and s5: "save_config flt c5 g5 ?s4 =
                 (True, st\<lparr>backup_dir :=
                             Some [(?n1, f0), (?n2, l1), (?n3, l2), (?n4, l3), (?n5, l4)],
                           live := Some l5\<rparr>)"
    by auto
  let ?s5 = "st\<lparr>backup_dir := Some [(?n1, f0), (?n2, l1), (?n3, l2), (?n4, l3), (?n5, l4)],
                live := Some l5\<rparr>"
  have "sorted_wrt (<) [mtime f0, mtime l1, mtime l2, mtime l3, mtime l4, mtime l5]"
    using times l1 l2 l3 l4 l5 by simp
  from save_config_sixth [OF io _ valid(6) _ names bn bn bn bn bn this, of ?s5]
  obtain l6
    where s6: "save_config flt c6 g6 ?s5 =
                 (True, st\<lparr>backup_dir :=
                             Some [(?n2, l1), (?n3, l2), (?n4, l3), (?n5, l4), (?n6, l5)],
                           live := Some l6\<rparr>)"
    by auto
  let ?s6 = "st\<lparr>backup_dir := Some [(?n2, l1), (?n3, l2), (?n4, l3), (?n5, l4), (?n6, l5)],
                live := Some l6\<rparr>"
  have "save_each flt [(c1, g1), (c2, g2), (c3, g3), (c4, g4), (c5, g5), (c6, g6)] st
          = (True, ?s6)"
    by (simp add: s1 s2 s3 s4 s5 s6)
  moreover have "backup_entries ?s6 =
      [(fs_time c1, ?n2), (fs_time c2, ?n3), (fs_time c3, ?n4), (fs_time c4, ?n5),
       (fs_time c5, ?n6)]"
    using l1 l2 l3 l4 l5 by (simp add: backup_entries_def bn)
  ultimately show ?thesis by blast
qed

lemma backup_config_rotation:
  assumes io: "\<forall>op. \<not> flt op"
    and dir: "backup_dir st = Some d" and dist: "distinct (map fst d)"
    and backed: "backup_config flt clk st = (Some p, st')"
  shows "\<exists>st1. copy2 flt (fs_time clk) ConfigFile p st = (None, st1)
           \<and> length (backup_entries st') \<le> 5
           \<and> set (backup_entries st') \<subseteq> set (backup_entries st1)
           \<and> (\<forall>x\<in>set (backup_entries st1) - set (backup_entries st').
                \<forall>y\<in>set (backup_entries st'). x < y)"
proof -
  from backed obtain f where live: "live st = Some f"
    by (cases "live st") (auto simp: backup_config_def os_path_exists_def)
  let ?d = "AList.update (backup_name clk) f d"
  let ?st1 = "st\<lparr>backup_dir := Some ?d\<rparr>"
  from backup_config_copy [OF io live dir, of clk] backed
  have p: "p = BackupFile (backup_name clk)" and st': "st' = cleanup_old_backups flt 5 ?st1"
    by simp_all
  have copy: "copy2 flt (fs_time clk) ConfigFile p st = (None, ?st1)"
    using io live dir p by (simp add: copy2_def)
  have "distinct (map fst ?d)"
    using dist by (rule distinct_update)
  from cleanup_old_backups_keeps_latest [of ?st1 ?d flt, OF _ this] io
  have "length (backup_entries st') = min 5 (length (backup_entries ?st1))
    \<and> set (backup_entries st') \<subseteq> set (backup_entries ?st1)
    \<and> (\<forall>x\<in>set (backup_entries ?st1) - set (backup_entries st').
         \<forall>y\<in>set (backup_entries st'). x < y)"
    unfolding st' by simp
  with copy show ?thesis by auto
qed

lemma default_config_basic: "fst (basic_validation get_default_config)"
  by (simp add: basic_validation_def type_checks_def type_error_def get_default_config_def
        ascii_def)

lemma save_config_same_name:
  assumes io: "\<forall>op. \<not> flt op" and live: "live st = Some f"
    and dir: "backup_dir st = Some [(backup_name clk, b)]"
    and valid: "fst (basic_validation config)"
  shows "\<exists>new. mtime new = fs_time clk \<and>
           save_config flt clk config st =
             (True, st\<lparr>backup_dir := Some [(backup_name clk, f)], live := Some new\<rparr>)"
proof -
  let ?st1 = "st\<lparr>backup_dir := Some [(backup_name clk, f)]\<rparr>"
  have "length (backup_entries ?st1) \<le> 5"
    by (simp add: backup_entries_def)
  then have "cleanup_old_backups flt 5 ?st1 = ?st1"
    using cleanup_old_backups_few [of ?st1 "[(backup_name clk, f)]" flt] io by simp
  with save_config_step [OF io live dir valid, of clk]
  show ?thesis by simp
qed

text \<open>
  Claim C7, as amended. The operating system refusing nothing: after a successful
  \<open>backup_config\<close> at most 5 files named \<open>config_backup_*.json\<close> remain, all of them among
  those present once the new copy was made, and every one that was deleted is earlier in
  the order by (modification time, name) than every one retained; a \<open>save_config\<close> of an
  accepted configuration that finds a configuration file leaves the backup directory that
  \<open>backup_config\<close> leaves. After 6 successive saves with pairwise different timestamps and
  increasing file times, from a configuration file older than the first save and an empty
  backup directory, exactly 5 backups remain: those made by the last five saves, each with
  the modification time of the file it copied.
\<close>

theorem backup_rotation:
  assumes io: "\<forall>op. \<not> flt op"
  shows "(backup_dir st = Some d \<and> distinct (map fst d)
          \<and> backup_config flt clk st = (Some p, st')
          \<longrightarrow> (\<exists>st1. copy2 flt (fs_time clk) ConfigFile p st = (None, st1)
                 \<and> length (backup_entries st') \<le> 5
                 \<and> set (backup_entries st') \<subseteq> set (backup_entries st1)
                 \<and> (\<forall>x\<in>set (backup_entries st1) - set (backup_entries st').
                      \<forall>y\<in>set (backup_entries st'). x < y)))
       \<and> (live st = Some f \<and> \<not> rejected config
          \<longrightarrow> backup_dir (snd (save_config flt clk config st))
              = backup_dir (snd (backup_config flt clk st)))
       \<and> (live s0 = Some f0 \<and> backup_dir s0 = Some []
          \<and> \<not> rejected g1 \<and> \<not> rejected g2 \<and> \<not> rejected g3
          \<and> \<not> rejected g4 \<and> \<not> rejected g5 \<and> \<not> rejected g6
          \<and> distinct [stamp c1, stamp c2, stamp c3, stamp c4, stamp c5, stamp c6]
          \<and> sorted_wrt (<) [mtime f0, fs_time c1, fs_time c2, fs_time c3, fs_time c4,
                             fs_time c5, fs_time c6]
          \<longrightarrow> (\<exists>s6. save_each flt [(c1, g1), (c2, g2), (c3, g3), (c4, g4), (c5, g5), (c6, g6)] s0
                        = (True, s6)
                 \<and> backup_entries s6 =
                     [(fs_time c1, backup_name c2), (fs_time c2, backup_name c3),
                      (fs_time c3, backup_name c4), (fs_time c4, backup_name c5),
                      (fs_time c5, backup_name c6)]))"
proof (intro conjI impI)
  assume "backup_dir st = Some d \<and> distinct (map fst d)
          \<and> backup_config flt clk st = (Some p, st')"
  then show "\<exists>st1. copy2 flt (fs_time clk) ConfigFile p st = (None, st1)
                 \<and> length (backup_entries st') \<le> 5
                 \<and> set (backup_entries st') \<subseteq> set (backup_entries st1)
                 \<and> (\<forall>x\<in>set (backup_entries st1) - set (backup_entries st').
                      \<forall>y\<in>set (backup_entries st'). x < y)"
    using backup_config_rotation [OF io, of st d clk p st'] by blast
next
  assume "live st = Some f \<and> \<not> rejected config"
  then show "backup_dir (snd (save_config flt clk config st))
              = backup_dir (snd (backup_config flt clk st))"
    using basic_validation_rejected [of config]
    by (simp add: save_config_def os_path_exists_def Let_def)
next
  assume a: "live s0 = Some f0 \<and> backup_dir s0 = Some []
          \<and> \<not> rejected g1 \<and> \<not> rejected g2 \<and> \<not> rejected g3
          \<and> \<not> rejected g4 \<and> \<not> rejected g5 \<and> \<not> rejected g6
          \<and> distinct [stamp c1, stamp c2, stamp c3, stamp c4, stamp c5, stamp c6]
          \<and> sorted_wrt (<) [mtime f0, fs_time c1, fs_time c2, fs_time c3, fs_time c4,
                             fs_time c5, fs_time c6]"
  then have valid: "fst (basic_validation g1)" "fst (basic_validation g2)"
      "fst (basic_validation g3)" "fst (basic_validation g4)" "fst (basic_validation g5)"
      "fst (basic_validation g6)"
    by (simp_all add: basic_validation_rejected)
  from a have live: "live s0 = Some f0" and dir: "backup_dir s0 = Some []"
    and stamps: "distinct [stamp c1, stamp c2, stamp c3, stamp c4, stamp c5, stamp c6]"
    and times: "sorted_wrt (<) [mtime f0, fs_time c1, fs_time c2, fs_time c3, fs_time c4,
                             fs_time c5, fs_time c6]"
    by blast+
  show "\<exists>s6. save_each flt [(c1, g1), (c2, g2), (c3, g3), (c4, g4), (c5, g5), (c6, g6)] s0
                        = (True, s6)
                 \<and> backup_entries s6 =
                     [(fs_time c1, backup_name c2), (fs_time c2, backup_name c3),
                      (fs_time c3, backup_name c4), (fs_time c4, backup_name c5),
                      (fs_time c5, backup_name c6)]"
    by (rule six_saves [OF io live dir valid stamps times])
qed

theorem backup_rotation_witness:
  "(\<forall>op. \<not> no_faults op)
   \<and> fst (backup_config no_faults (daily 2) seeded_fs) = Some (BackupFile (backup_name (daily 2)))
   \<and> length (backup_entries (snd (backup_config no_faults (daily 2) seeded_fs))) \<le> 5
   \<and> fst (save_each no_faults daily_saves seeded_fs)
   \<and> backup_entries (snd (save_each no_faults daily_saves seeded_fs)) =
       [(fs_time (daily 2), backup_name (daily 3)), (fs_time (daily 3), backup_name (daily 4)),
        (fs_time (daily 4), backup_name (daily 5)), (fs_time (daily 5), backup_name (daily 6)),
        (fs_time (daily 6), backup_name (daily 7))]"
proof -
  have io: "\<forall>op. \<not> no_faults op" by (simp add: no_faults_def)
  have live: "live seeded_fs = Some \<lparr>content = JsonText (to_json get_default_config), mtime = 500\<rparr>"
    and dir: "backup_dir seeded_fs = Some []"
    by (simp_all add: seeded_fs_def)
  have valid: "\<not> rejected get_default_config"
    using default_config_basic by (simp add: basic_validation_rejected)
  have stamps: "distinct [stamp (daily 2), stamp (daily 3), stamp (daily 4), stamp (daily 5),
      stamp (daily 6), stamp (daily 7)]"
    by (simp add: daily_def)
  have times: "sorted_wrt (<) [mtime \<lparr>content = JsonText (to_json get_default_config), mtime = 500\<rparr>,
      fs_time (daily 2), fs_time (daily 3), fs_time (daily 4), fs_time (daily 5),
      fs_time (daily 6), fs_time (daily 7)]"
    by (simp add: daily_def)
  have backed: "backup_config no_faults (daily 2) seeded_fs =
      (Some (BackupFile (backup_name (daily 2))), snd (backup_config no_faults (daily 2) seeded_fs))"
    using backup_config_copy [OF io live dir, of "daily 2"] by simp
  note rot = backup_rotation [OF io, of seeded_fs "[]" "daily 2"
      "BackupFile (backup_name (daily 2))" "snd (backup_config no_faults (daily 2) seeded_fs)"
      _ _ seeded_fs "\<lparr>content = JsonText (to_json get_default_config), mtime = 500\<rparr>"
      get_default_config get_default_config get_default_config get_default_config
      get_default_config get_default_config "daily 2" "daily 3" "daily 4" "daily 5" "daily 6"
      "daily 7"]
  from rot dir backed have "length (backup_entries (snd (backup_config no_faults (daily 2) seeded_fs))) \<le> 5"
    by auto
  moreover from rot live dir valid stamps times
  obtain s6 where "save_each no_faults daily_saves seeded_fs = (True, s6)"
    and "backup_entries s6 =
       [(fs_time (daily 2), backup_name (daily 3)), (fs_time (daily 3), backup_name (daily 4)),
        (fs_time (daily 4), backup_name (daily 5)), (fs_time (daily 5), backup_name (daily 6)),
        (fs_time (daily 6), backup_name (daily 7))]"
    unfolding daily_saves_def by blast
  moreover have "fst (backup_config no_faults (daily 2) seeded_fs)
      = Some (BackupFile (backup_name (daily 2)))"
    using backup_config_copy [OF io live dir, of "daily 2"] by simp
  ultimately show ?thesis using io by simp
qed

text \<open>
  Claim C7 as stated promises exactly 5 backups after 6 successive saves. The backup's name
  carries the time to the second only: six saves within one second write the same backup
  file six times, and one backup remains.
\<close>

theorem same_second_saves_keep_one:
  "fst (save_each no_faults same_second_saves seeded_fs)
   \<and> backup_entries (snd (save_each no_faults same_second_saves seeded_fs))
       = [(1004, ascii ''config_backup_20240101_120000.json'')]
   \<and> length (backup_entries (snd (save_each no_faults same_second_saves seeded_fs))) \<noteq> 5"
proof -
  let ?n = "ascii ''config_backup_20240101_120000.json''"
  let ?f0 = "\<lparr>content = JsonText (to_json get_default_config), mtime = 500\<rparr>"
  have io: "\<forall>op. \<not> no_faults op" by (simp add: no_faults_def)
  have n: "backup_name (same_second k) = ?n" for k
    by (simp add: backup_name_def same_second_def ascii_def)
  have t: "fs_time (same_second k) = 1000 + k" for k
    by (simp add: same_second_def)
  note valid = default_config_basic
  have live: "live seeded_fs = Some ?f0" and dir: "backup_dir seeded_fs = Some []"
    by (simp_all add: seeded_fs_def)
  from save_config_few [OF io live dir valid, of "same_second 0"] obtain l1
    where s1: "save_config no_faults (same_second 0) get_default_config seeded_fs =
                 (True, seeded_fs\<lparr>backup_dir := Some [(?n, ?f0)], live := Some l1\<rparr>)"
    by (auto simp: n)
  let ?s1 = "seeded_fs\<lparr>backup_dir := Some [(?n, ?f0)], live := Some l1\<rparr>"
  from save_config_same_name [OF io _ _ valid, of ?s1 l1 "same_second 1" ?f0] obtain l2
    where s2: "save_config no_faults (same_second 1) get_default_config ?s1 =
                 (True, seeded_fs\<lparr>backup_dir := Some [(?n, l1)], live := Some l2\<rparr>)"
    by (auto simp: n)
  let ?s2 = "seeded_fs\<lparr>backup_dir := Some [(?n, l1)], live := Some l2\<rparr>"
  from save_config_same_name [OF io _ _ valid, of ?s2 l2 "same_second 2" l1] obtain l3
    where s3: "save_config no_faults (same_second 2) get_default_config ?s2 =
                 (True, seeded_fs\<lparr>backup_dir := Some [(?n, l2)], live := Some l3\<rparr>)"
    by (auto simp: n)
  let ?s3 = "seeded_fs\<lparr>backup_dir := Some [(?n, l2)], live := Some l3\<rparr>"
  from save_config_same_name [OF io _ _ valid, of ?s3 l3 "same_second 3" l2] obtain l4
    where s4: "save_config no_faults (same_second 3) get_default_config ?s3 =
                 (True, seeded_fs\<lparr>backup_dir := Some [(?n, l3)], live := Some l4\<rparr>)"
    by (auto simp: n)
  let ?s4 = "seeded_fs\<lparr>backup_dir := Some [(?n, l3)], live := Some l4\<rparr>"
  from save_config_same_name [OF io _ _ valid, of ?s4 l4 "same_second 4" l3] obtain l5
    where l5: "mtime l5 = fs_time (same_second 4)"
      and s5: "save_config no_faults (same_second 4) get_default_config ?s4 =
                 (True, seeded_fs\<lparr>backup_dir := Some [(?n, l4)], live := Some l5\<rparr>)"
    by (auto simp: n)
  let ?s5 = "seeded_fs\<lparr>backup_dir := Some [(?n, l4)], live := Some l5\<rparr>"
  from save_config_same_name [OF io _ _ valid, of ?s5 l5 "same_second 5" l4] obtain l6
    where s6: "save_config no_faults (same_second 5) get_default_config ?s5 =
                 (True, seeded_fs\<lparr>backup_dir := Some [(?n, l5)], live := Some l6\<rparr>)"
    by (auto simp: n)
  let ?s6 = "seeded_fs\<lparr>backup_dir := Some [(?n, l5)], live := Some l6\<rparr>"
  have run: "save_each no_faults same_second_saves seeded_fs = (True, ?s6)"
    by (simp add: same_second_saves_def s1 s2 s3 s4 s5 s6 del: One_nat_def)
  have "is_backup_name ?n"
    using backup_name_is_backup_name [of "same_second 0"] by (simp only: n)
  then have "backup_entries ?s6 = [(1004, ?n)]"
    using l5 by (simp add: backup_entries_def t)
  with run show ?thesis by simp
qed

end
